theory Spec2Isabelle
  imports Complex_Main "HOL-Library.Sublist"
begin

section \<open>Common JavaScript values\<close>

text \<open>
  Strings are lists of code units. A value that is thrown (or with which a promise is
  rejected) is either an \<open>Error\<close> object, of which only the message matters here, or any
  other value, kept as the text \<open>String(v)\<close> gives for it.
\<close>

datatype js_thrown = JsError string | JsValue string

fun thrown_message :: "js_thrown \<Rightarrow> string" where
  "thrown_message (JsError m) = m"
| "thrown_message (JsValue s) = s"

text \<open>Decimal rendering of integers, as a template literal prints them.\<close>

definition digit_char :: "nat \<Rightarrow> char" where
  "digit_char d = ''0123456789'' ! d"

function show_nat :: "nat \<Rightarrow> string" where
  "show_nat n = (if n < 10 then [digit_char n] else show_nat (n div 10) @ [digit_char (n mod 10)])"
  by pat_completeness auto
termination
  by (relation "measure (\<lambda>n. n)") auto

definition show_int :: "int \<Rightarrow> string" where
  "show_int i = (if i < 0 then CHR ''-'' # show_nat (nat (- i)) else show_nat (nat i))"

section \<open>Rate limiter (trading-commands handlers)\<close>

text \<open>
  \<open>claudeSpawnTimestamps\<close> is the module-level array; it is passed in and returned.
  \<open>Date.now()\<close> is the argument \<open>now\<close> (milliseconds).
\<close>

definition RATE_LIMIT_WINDOW_MS :: int where
  "RATE_LIMIT_WINDOW_MS = 60000"

definition RATE_LIMIT_MAX :: nat where
  "RATE_LIMIT_MAX = 5"

text \<open>The \<open>while\<close> loop: shift the head while it is at or before \<open>now - window\<close>.\<close>

fun evict_expired :: "int \<Rightarrow> int list \<Rightarrow> int list" where
  "evict_expired now [] = []"
| "evict_expired now (t # ts) =
     (if t \<le> now - RATE_LIMIT_WINDOW_MS then evict_expired now ts else t # ts)"

definition checkRateLimit :: "int \<Rightarrow> int list \<Rightarrow> bool \<times> int list" where
  "checkRateLimit now claudeSpawnTimestamps =
     (let ts = evict_expired now claudeSpawnTimestamps in
      if length ts \<ge> RATE_LIMIT_MAX then (False, ts)
      else (True, ts @ [now]))"

text \<open>A run of calls at the given clock readings, from a given array.\<close>

fun checkRateLimit_calls :: "int list \<Rightarrow> int list \<Rightarrow> bool list \<times> int list" where
  "checkRateLimit_calls [] ts = ([], ts)"
| "checkRateLimit_calls (now # nows) ts =
     (let (ok, ts') = checkRateLimit now ts;
          (oks, ts'') = checkRateLimit_calls nows ts'
      in (ok # oks, ts''))"

section \<open>Retry wrapper (lib/retry.ts)\<close>

text \<open>
  The patterns are plain substrings, so a regular expression test is a substring search;
  the flag \<open>i\<close> compares letters without regard to case. Only the letters \<open>a\<close> to \<open>z\<close>
  fold onto the ASCII capitals: without the flag \<open>u\<close> no code unit above 127 is
  canonicalised to one below 128.
\<close>

definition ascii_upper :: "char \<Rightarrow> char" where
  "ascii_upper c =
     (case map_of (zip ''abcdefghijklmnopqrstuvwxyz'' ''ABCDEFGHIJKLMNOPQRSTUVWXYZ'') c of
        Some u \<Rightarrow> u
      | None \<Rightarrow> c)"

fun str_includes :: "string \<Rightarrow> string \<Rightarrow> bool" where
  "str_includes pat [] = (pat = [])"
| "str_includes pat (c # cs) = (prefix pat (c # cs) \<or> str_includes pat cs)"

definition regex_test :: "string \<times> bool \<Rightarrow> string \<Rightarrow> bool" where
  "regex_test p msg =
     (if snd p then str_includes (map ascii_upper (fst p)) (map ascii_upper msg)
      else str_includes (fst p) msg)"

text \<open>Each pattern with its ignore-case flag, in the order of the source.\<close>

definition TRANSIENT_PATTERNS :: "(string \<times> bool) list" where
  "TRANSIENT_PATTERNS =
     [(''ECONNREFUSED'', True),
      (''ECONNRESET'', True),
      (''ETIMEDOUT'', True),
      (''EPIPE'', True),
      (''timeout'', True),
      (''network'', True),
      (''socket hang up'', True),
      (''503'', False),
      (''502'', False),
      (''429'', False)]"

definition isTransientError :: "js_thrown \<Rightarrow> bool" where
  "isTransientError err =
     (let msg = thrown_message err in list_ex (\<lambda>p. regex_test p msg) TRANSIENT_PATTERNS)"

text \<open>
  The operation \<open>fn\<close> is effectful: each call takes the state of the world it acts on and
  returns how its promise settled (\<open>Inl\<close> a rejection, \<open>Inr\<close> the value) with the new
  state. A run of \<open>withRetry\<close> records how it settled, the delays given to \<open>setTimeout\<close>
  in order, and how many times \<open>fn\<close> was called. Console output is not recorded.
\<close>

record ('a, 's) retry_run =
  rr_outcome :: "js_thrown + 'a"
  rr_slept :: "int list"
  rr_attempts :: nat
  rr_state :: 's

record retry_opts =
  opt_maxRetries :: "int option"
  opt_baseDelayMs :: "int option"
  opt_label :: "string option"

text \<open>
  The \<open>for\<close> loop from the value \<open>attempt\<close> on. The branch after the loop is the final
  \<open>throw\<close> of the source, reached when \<open>maxRetries\<close> is negative.
\<close>

function withRetry_loop ::
  "('s \<Rightarrow> (js_thrown + 'a) \<times> 's) \<Rightarrow> int \<Rightarrow> int \<Rightarrow> string \<Rightarrow> nat \<Rightarrow> int list \<Rightarrow> 's
     \<Rightarrow> ('a, 's) retry_run" where
  "withRetry_loop fn maxRetries baseDelayMs label attempt slept s =
     (if int attempt \<le> maxRetries then
        (case fn s of
           (Inr v, s') \<Rightarrow>
             \<lparr>rr_outcome = Inr v, rr_slept = slept, rr_attempts = attempt + 1, rr_state = s'\<rparr>
         | (Inl err, s') \<Rightarrow>
             if int attempt = maxRetries \<or> \<not> isTransientError err then
               \<lparr>rr_outcome = Inl err, rr_slept = slept, rr_attempts = attempt + 1, rr_state = s'\<rparr>
             else
               withRetry_loop fn maxRetries baseDelayMs label (attempt + 1)
                 (slept @ [baseDelayMs * 2 ^ attempt]) s')
      else
        \<lparr>rr_outcome =
           Inl (JsError (label @ '' failed after '' @ show_int maxRetries @ '' retries'')),
         rr_slept = slept, rr_attempts = attempt, rr_state = s\<rparr>)"
  by pat_completeness auto
termination
  by (relation "measure (\<lambda>(fn, maxRetries, baseDelayMs, label, attempt, slept, s).
        nat (maxRetries + 1 - int attempt))") auto

declare withRetry_loop.simps [simp del]

text \<open>The destructuring defaults of the options.\<close>

definition maxRetries_of :: "retry_opts \<Rightarrow> int" where
  "maxRetries_of opts = (case opt_maxRetries opts of None \<Rightarrow> 3 | Some m \<Rightarrow> m)"

definition baseDelayMs_of :: "retry_opts \<Rightarrow> int" where
  "baseDelayMs_of opts = (case opt_baseDelayMs opts of None \<Rightarrow> 5000 | Some b \<Rightarrow> b)"

definition label_of :: "retry_opts \<Rightarrow> string" where
  "label_of opts = (case opt_label opts of None \<Rightarrow> ''operation'' | Some l \<Rightarrow> l)"

definition withRetry ::
  "('s \<Rightarrow> (js_thrown + 'a) \<times> 's) \<Rightarrow> retry_opts \<Rightarrow> 's \<Rightarrow> ('a, 's) retry_run" where
  "withRetry fn opts s =
     withRetry_loop fn (maxRetries_of opts) (baseDelayMs_of opts) (label_of opts) 0 [] s"

text \<open>An operation used to exercise the wrapper: it counts its calls, is refused with
  a timeout on the first two and answers 42 from the third on.\<close>

definition flaky_twice :: "nat \<Rightarrow> (js_thrown + int) \<times> nat" where
  "flaky_twice n =
     (if n < 2 then (Inl (JsError ''connect ETIMEDOUT 10.0.0.1:443''), Suc n)
      else (Inr 42, Suc n))"

text \<open>
  The state before the \<open>i\<close>-th call of \<open>fn\<close> (counting from 0) when every call is made
  one after the other, and how that call settles.
\<close>

fun state_before_call :: "('s \<Rightarrow> 'r \<times> 's) \<Rightarrow> nat \<Rightarrow> 's \<Rightarrow> 's" where
  "state_before_call fn 0 s = s"
| "state_before_call fn (Suc i) s = state_before_call fn i (snd (fn s))"

definition call_result :: "('s \<Rightarrow> 'r \<times> 's) \<Rightarrow> nat \<Rightarrow> 's \<Rightarrow> 'r" where
  "call_result fn i s = fst (fn (state_before_call fn i s))"

section \<open>String operations of the JavaScript library\<close>

text \<open>
  Strings are modelled with code units up to 255. Of the white space \<open>trim\<close> strips,
  these are tab, line feed, vertical tab, form feed, carriage return, space and the
  no-break space.
\<close>

definition js_whitespace :: "char \<Rightarrow> bool" where
  "js_whitespace c =
     (c \<in> set [CHR 0x09, CHR 0x0A, CHR 0x0B, CHR 0x0C, CHR 0x0D, CHR 0x20, CHR 0xA0])"

definition js_trim :: "string \<Rightarrow> string" where
  "js_trim s = rev (dropWhile js_whitespace (rev (dropWhile js_whitespace s)))"

text \<open>\<open>s.split('\n')\<close>: the empty string gives one empty line.\<close>

fun js_split_lines :: "string \<Rightarrow> string list" where
  "js_split_lines [] = [[]]"
| "js_split_lines (c # cs) =
     (if c = CHR 0x0A then [] # js_split_lines cs
      else (case js_split_lines cs of
              [] \<Rightarrow> [[c]]
            | l # ls \<Rightarrow> (c # l) # ls))"

fun js_join :: "string \<Rightarrow> string list \<Rightarrow> string" where
  "js_join sep [] = []"
| "js_join sep [x] = x"
| "js_join sep (x # y # ys) = x @ sep @ js_join sep (y # ys)"

text \<open>\<open>a || b\<close> on strings: the empty string is the only falsy one.\<close>

definition js_or :: "string \<Rightarrow> string \<Rightarrow> string" where
  "js_or a b = (if a = [] then b else a)"

text \<open>\<open>!v\<close> for an optional string property: absent or empty.\<close>

definition js_missing :: "string option \<Rightarrow> bool" where
  "js_missing v = (case v of None \<Rightarrow> True | Some s \<Rightarrow> s = [])"

definition js_string_of :: "string option \<Rightarrow> string" where
  "js_string_of v = (case v of None \<Rightarrow> ''undefined'' | Some s \<Rightarrow> s)"

text \<open>
  The values \<open>JSON.parse\<close> can return, and \<open>undefined\<close> for a property that is not
  there. An object holds its properties as pairs; the parser keeps one pair per name.
\<close>

datatype js_value =
    JUndefined
  | JNull
  | JBool bool
  | JNum real
  | JStr string
  | JArr "js_value list"
  | JObj "(string \<times> js_value) list"

text \<open>
  Reading a property: of \<open>null\<close> and \<open>undefined\<close> it throws a TypeError (\<open>None\<close>); of
  an object it is the value stored under the name, or \<open>undefined\<close>. The names read in
  this program (\<open>type\<close>, \<open>item\<close>, \<open>text\<close>) are no properties of strings, numbers,
  booleans or arrays, which give \<open>undefined\<close>.
\<close>

fun js_get :: "js_value \<Rightarrow> string \<Rightarrow> js_value option" where
  "js_get JUndefined k = None"
| "js_get JNull k = None"
| "js_get (JObj kvs) k = (case map_of kvs k of None \<Rightarrow> Some JUndefined | Some v \<Rightarrow> Some v)"
| "js_get v k = Some JUndefined"

fun js_truthy :: "js_value \<Rightarrow> bool" where
  "js_truthy JUndefined = False"
| "js_truthy JNull = False"
| "js_truthy (JBool b) = b"
| "js_truthy (JNum x) = (x \<noteq> 0)"
| "js_truthy (JStr s) = (s \<noteq> [])"
| "js_truthy (JArr xs) = True"
| "js_truthy (JObj kvs) = True"

section \<open>Child processes and promises (lib/invoke.ts)\<close>

text \<open>
  A promise is pending, resolved or rejected; once settled, later calls of \<open>resolve\<close>
  and \<open>reject\<close> have no effect.
\<close>

datatype 'a promise = Pending | Resolved 'a | Rejected js_thrown

definition settle :: "'a promise \<Rightarrow> 'a promise \<Rightarrow> 'a promise" where
  "settle p new = (case p of Pending \<Rightarrow> new | Resolved v \<Rightarrow> p | Rejected e \<Rightarrow> p)"

text \<open>
  What \<open>spawn\<close> is asked for: the command, its argument strings, the working directory
  if one is given, and what is written to the standard input of the child (\<open>None\<close> when
  the stdin is \<open>'ignore'\<close>).
\<close>

record spawn_req =
  sp_command :: string
  sp_args :: "string list"
  sp_cwd :: "string option"
  sp_stdin :: "string option"

text \<open>
  What happens to a child after it is spawned, as the callbacks see it, in the order in
  which the event loop runs them: data on stdout or stderr, the event \<open>error\<close>, the event
  \<open>close\<close> with the exit code (\<open>null\<close> when a signal ended the child), and the moment
  the callback of \<open>setTimeout\<close> would run.
\<close>

datatype proc_event =
    StdoutData string
  | StderrData string
  | ErrorEvent js_thrown
  | CloseEvent "int option"
  | TimeoutFires

record child_state =
  cs_stdout :: string
  cs_stderr :: string
  cs_timer :: bool
  cs_killed :: bool
  cs_promise :: "string promise"

definition show_code :: "int option \<Rightarrow> string" where
  "show_code code = (case code of None \<Rightarrow> ''null'' | Some n \<Rightarrow> show_int n)"

text \<open>\<open>${ms / 1000}\<close> for a whole number of milliseconds.\<close>

definition show_seconds :: "nat \<Rightarrow> string" where
  "show_seconds ms =
     (let r = ms mod 1000;
          frac = [digit_char (r div 100), digit_char (r div 10 mod 10), digit_char (r mod 10)]
      in show_nat (ms div 1000) @
         (if r = 0 then [] else ''.'' @ rev (dropWhile (\<lambda>c. c = CHR ''0'') (rev frac))))"

definition REMOTE_TIMEOUT_MS :: nat where
  "REMOTE_TIMEOUT_MS = 10 * 60 * 1000"

definition LOCAL_TIMEOUT_MS :: nat where
  "LOCAL_TIMEOUT_MS = 5 * 60 * 1000"

text \<open>
  The world outside the program: the clock, what each spawned child does, the helpers
  imported from \<open>./config\<close> and \<open>./agent-setup\<close>, whose sources are not part of this
  development, and the library functions \<open>path.isAbsolute\<close>, \<open>path.join\<close> and
  \<open>JSON.parse\<close> (\<open>None\<close> when it throws). \<open>w_setup\<close> is the error, if any, with which
  \<open>ensureAgentDirectory\<close> or \<open>updateAgentTeammates\<close> fails.
\<close>

record world =
  w_now :: int
  w_run :: "spawn_req \<Rightarrow> proc_event list"
  w_setup :: "js_thrown option"
  w_SCRIPT_DIR :: string
  w_resolveClaudeModel :: "string \<Rightarrow> string"
  w_resolveCodexModel :: "string \<Rightarrow> string"
  w_path_isAbsolute :: "string \<Rightarrow> bool"
  w_path_join :: "string \<Rightarrow> string \<Rightarrow> string"
  w_JSON_parse :: "string \<Rightarrow> js_value option"

subsection \<open>runCommand\<close>

definition runCommand_init :: "nat option \<Rightarrow> child_state" where
  "runCommand_init timeoutMs =
     \<lparr>cs_stdout = [], cs_stderr = [],
      cs_timer = (case timeoutMs of None \<Rightarrow> False | Some t \<Rightarrow> t \<noteq> 0),
      cs_killed = False, cs_promise = Pending\<rparr>"

fun runCommand_event :: "nat option \<Rightarrow> child_state \<Rightarrow> proc_event \<Rightarrow> child_state" where
  "runCommand_event timeoutMs cs (StdoutData chunk) = cs\<lparr>cs_stdout := cs_stdout cs @ chunk\<rparr>"
| "runCommand_event timeoutMs cs (StderrData chunk) = cs\<lparr>cs_stderr := cs_stderr cs @ chunk\<rparr>"
| "runCommand_event timeoutMs cs TimeoutFires =
     (case timeoutMs of
        None \<Rightarrow> cs
      | Some t \<Rightarrow>
          if cs_timer cs then
            cs\<lparr>cs_timer := False, cs_killed := True,
               cs_promise := settle (cs_promise cs)
                 (Rejected (JsError (''Command timed out after '' @ show_seconds t @ ''s'')))\<rparr>
          else cs)"
| "runCommand_event timeoutMs cs (ErrorEvent error) =
     cs\<lparr>cs_timer := False, cs_promise := settle (cs_promise cs) (Rejected error)\<rparr>"
| "runCommand_event timeoutMs cs (CloseEvent code) =
     (if code = Some 0 then
        cs\<lparr>cs_timer := False, cs_promise := settle (cs_promise cs) (Resolved (cs_stdout cs))\<rparr>
      else
        cs\<lparr>cs_timer := False,
           cs_promise := settle (cs_promise cs)
             (Rejected (JsError (js_or (js_trim (cs_stderr cs))
                (''Command exited with code '' @ show_code code))))\<rparr>)"

definition runCommand_req :: "world \<Rightarrow> string \<Rightarrow> string list \<Rightarrow> string option \<Rightarrow> spawn_req" where
  "runCommand_req w command args cwd =
     \<lparr>sp_command = command, sp_args = args,
      sp_cwd = Some (if js_missing cwd then w_SCRIPT_DIR w else js_string_of cwd),
      sp_stdin = None\<rparr>"

definition runCommand ::
  "world \<Rightarrow> string \<Rightarrow> string list \<Rightarrow> string option \<Rightarrow> nat option
     \<Rightarrow> string promise \<times> spawn_req list" where
  "runCommand w command args cwd timeoutMs =
     (let req = runCommand_req w command args cwd;
          cs = foldl (runCommand_event timeoutMs) (runCommand_init timeoutMs) (w_run w req)
      in (cs_promise cs, [req]))"

subsection \<open>runCommandRemote\<close>

text \<open>The first ssh child writes the prompt; only \<open>close\<close> and \<open>error\<close> are listened to.\<close>

fun writeProc_event :: "unit promise \<Rightarrow> proc_event \<Rightarrow> unit promise" where
  "writeProc_event p (CloseEvent code) =
     (if code = Some 0 then settle p (Resolved ())
      else settle p (Rejected (JsError
             (''Failed to write prompt via SSH (exit '' @ show_code code @ '')''))))"
| "writeProc_event p (ErrorEvent e) = settle p (Rejected e)"
| "writeProc_event p ev = p"

definition remote_init :: child_state where
  "remote_init =
     \<lparr>cs_stdout = [], cs_stderr = [], cs_timer = True, cs_killed = False, cs_promise = Pending\<rparr>"

fun remote_event :: "child_state \<Rightarrow> proc_event \<Rightarrow> child_state" where
  "remote_event cs (StdoutData chunk) = cs\<lparr>cs_stdout := cs_stdout cs @ chunk\<rparr>"
| "remote_event cs (StderrData chunk) = cs\<lparr>cs_stderr := cs_stderr cs @ chunk\<rparr>"
| "remote_event cs TimeoutFires =
     (if cs_timer cs then
        cs\<lparr>cs_timer := False, cs_killed := True,
           cs_promise := settle (cs_promise cs)
             (Rejected (JsError (''Remote command timed out after ''
                @ show_seconds REMOTE_TIMEOUT_MS @ ''s'')))\<rparr>
      else cs)"
| "remote_event cs (CloseEvent code) =
     (if code = Some 0 then
        cs\<lparr>cs_timer := False,
           cs_promise := settle (cs_promise cs) (Resolved (js_trim (cs_stdout cs)))\<rparr>
      else
        cs\<lparr>cs_timer := False,
           cs_promise := settle (cs_promise cs)
             (Rejected (JsError (js_or (js_trim (cs_stderr cs))
                (''Remote exit code '' @ show_code code))))\<rparr>)"
| "remote_event cs (ErrorEvent err) =
     cs\<lparr>cs_timer := False, cs_promise := settle (cs_promise cs) (Rejected err)\<rparr>"

text \<open>
  The argument strings of the two ssh children. Neither function takes the prompt.
\<close>

definition remote_tmpFile :: "int \<Rightarrow> string" where
  "remote_tmpFile now = ''/tmp/tinyclaw-prompt-'' @ show_int now @ ''.txt''"

definition remote_write_args :: "string \<Rightarrow> string \<Rightarrow> string \<Rightarrow> string list" where
  "remote_write_args host user tmpFile = [user @ ''@'' @ host, ''cat > '' @ tmpFile]"

definition remoteCmd :: "string \<Rightarrow> string list \<Rightarrow> string \<Rightarrow> string" where
  \<open>remoteCmd remoteProjectRoot claudeArgs tmpFile =
     (let argsStr = js_join '' '' claudeArgs in
      js_join '' && ''
        [''cd '' @ remoteProjectRoot,
         ''source /etc/trading-signal-ai.env 2>/dev/null || true'',
         ''PROMPT=$(cat '' @ tmpFile @ '')'',
         ''rm -f '' @ tmpFile,
         ''claude '' @ argsStr @ '' -p "$PROMPT"''])\<close>

definition remote_exec_args :: "string \<Rightarrow> string \<Rightarrow> string \<Rightarrow> string list \<Rightarrow> string \<Rightarrow> string list" where
  "remote_exec_args host user remoteProjectRoot claudeArgs tmpFile =
     [user @ ''@'' @ host, remoteCmd remoteProjectRoot claudeArgs tmpFile]"

definition runCommandRemote ::
  "world \<Rightarrow> string \<Rightarrow> string \<Rightarrow> string \<Rightarrow> string list \<Rightarrow> string
     \<Rightarrow> string promise \<times> spawn_req list" where
  "runCommandRemote w host user remoteProjectRoot claudeArgs prompt =
     (let tmpFile = remote_tmpFile (w_now w);
          writeReq = \<lparr>sp_command = ''ssh'', sp_args = remote_write_args host user tmpFile,
                      sp_cwd = None, sp_stdin = Some prompt\<rparr>
      in case foldl writeProc_event Pending (w_run w writeReq) of
           Pending \<Rightarrow> (Pending, [writeReq])
         | Rejected e \<Rightarrow> (Rejected e, [writeReq])
         | Resolved u \<Rightarrow>
             (let execReq = \<lparr>sp_command = ''ssh'',
                             sp_args = remote_exec_args host user remoteProjectRoot claudeArgs tmpFile,
                             sp_cwd = None, sp_stdin = None\<rparr>;
                  cs = foldl remote_event remote_init (w_run w execReq)
              in (cs_promise cs, [writeReq, execReq])))"

subsection \<open>invokeAgent\<close>

datatype invoke_mode = Local | Remote

datatype heartbeat_mode = ClaudeMode | ScriptMode

record AgentConfig =
  name :: string
  provider :: string
  model :: string
  working_directory :: string
  invoke_mode :: "invoke_mode option"
  remote_host :: "string option"
  remote_user :: "string option"
  remote_project_root :: "string option"
  heartbeat_interval :: "int option"
  heartbeat_schedule :: "int list option"
  heartbeat_mode :: "heartbeat_mode option"

text \<open>
  The loop over the lines of the Codex output: the value of \<open>response\<close> after one line.
  A line that \<open>JSON.parse\<close> rejects, and a parsed \<open>null\<close> (whose property \<open>type\<close>
  cannot be read), end in the empty \<open>catch\<close>.
\<close>

definition codex_line :: "(string \<Rightarrow> js_value option) \<Rightarrow> js_value \<Rightarrow> string \<Rightarrow> js_value" where
  "codex_line parse response line =
     (case parse line of
        None \<Rightarrow> response
      | Some json \<Rightarrow>
          (case js_get json ''type'' of
             None \<Rightarrow> response
           | Some ty \<Rightarrow>
               if ty = JStr ''item.completed'' then
                 (case js_get json ''item'' of
                    None \<Rightarrow> response
                  | Some item \<Rightarrow>
                      (case js_get item ''type'' of
                         None \<Rightarrow> response
                       | Some ity \<Rightarrow>
                           if ity = JStr ''agent_message'' then
                             (case js_get item ''text'' of
                                None \<Rightarrow> response
                              | Some text \<Rightarrow> text)
                           else response))
               else response))"

definition codex_fallback :: string where
  "codex_fallback = ''Sorry, I could not generate a response from Codex.''"

definition codex_response :: "(string \<Rightarrow> js_value option) \<Rightarrow> string \<Rightarrow> js_value" where
  "codex_response parse codexOutput =
     (let lines = js_split_lines (js_trim codexOutput);
          response = foldl (codex_line parse) (JStr []) lines
      in if js_truthy response then response else JStr codex_fallback)"

definition claude_args :: "world \<Rightarrow> AgentConfig \<Rightarrow> bool \<Rightarrow> string list" where
  "claude_args w agent shouldReset =
     (let modelId = w_resolveClaudeModel w (model agent) in
      [''--dangerously-skip-permissions'']
      @ (if modelId \<noteq> [] then [''--model'', modelId] else [])
      @ (if \<not> shouldReset then [''-c''] else []))"

definition codex_args :: "world \<Rightarrow> AgentConfig \<Rightarrow> bool \<Rightarrow> string \<Rightarrow> string list" where
  "codex_args w agent shouldReset message =
     (let shouldResume = \<not> shouldReset;
          modelId = w_resolveCodexModel w (model agent) in
      [''exec'']
      @ (if shouldResume then [''resume'', ''--last''] else [])
      @ (if modelId \<noteq> [] then [''--model'', modelId] else [])
      @ [''--skip-git-repo-check'', ''--dangerously-bypass-approvals-and-sandbox'', ''--json'',
         message])"

text \<open>
  \<open>map_promise\<close>, the map function of the promise type, is what \<open>await\<close> followed by
  a computation on the value does: a rejection and a pending promise pass through.
\<close>

definition invokeAgent ::
  "world \<Rightarrow> AgentConfig \<Rightarrow> string \<Rightarrow> string \<Rightarrow> string \<Rightarrow> bool
     \<Rightarrow> js_value promise \<times> spawn_req list" where
  "invokeAgent w agent agentId message workspacePath shouldReset =
     (case w_setup w of
        Some e \<Rightarrow> (Rejected e, [])
      | None \<Rightarrow>
          (let agentDir = w_path_join w workspacePath agentId;
               workingDir =
                 (if working_directory agent \<noteq> [] then
                    (if w_path_isAbsolute w (working_directory agent)
                     then working_directory agent
                     else w_path_join w workspacePath (working_directory agent))
                  else agentDir);
               provider = js_or (provider agent) ''anthropic''
           in
             if invoke_mode agent = Some Remote then
               (let remoteHost = remote_host agent;
                    remoteUser = remote_user agent;
                    remoteRoot = remote_project_root agent
                in
                  if js_missing remoteHost \<or> js_missing remoteUser \<or> js_missing remoteRoot then
                    (Rejected (JsError (''Agent '' @ agentId @
                       '' has invoke_mode=remote but missing remote_host/remote_user/remote_project_root'')),
                     [])
                  else
                    (let (p, spawned) =
                           runCommandRemote w (js_string_of remoteHost) (js_string_of remoteUser)
                             (js_string_of remoteRoot) (claude_args w agent shouldReset) message
                     in (map_promise JStr p, spawned)))
             else if provider = ''openai'' then
               (let (p, spawned) =
                      runCommand w ''codex'' (codex_args w agent shouldReset message)
                        (Some workingDir) (Some LOCAL_TIMEOUT_MS)
                in (map_promise (codex_response (w_JSON_parse w)) p, spawned))
             else
               (let (p, spawned) =
                      runCommand w ''claude''
                        (claude_args w agent shouldReset @ [''-p'', message])
                        (Some workingDir) (Some LOCAL_TIMEOUT_MS)
                in (map_promise JStr p, spawned))))"

subsection \<open>Vocabulary for statements about child processes\<close>

text \<open>The data events of a child, and what they add up to on each stream.\<close>

definition is_data :: "proc_event \<Rightarrow> bool" where
  "is_data ev = (case ev of StdoutData c \<Rightarrow> True | StderrData c \<Rightarrow> True | _ \<Rightarrow> False)"

definition stdout_of :: "proc_event list \<Rightarrow> string" where
  "stdout_of evs = concat (map (\<lambda>ev. case ev of StdoutData c \<Rightarrow> c | _ \<Rightarrow> []) evs)"

definition stderr_of :: "proc_event list \<Rightarrow> string" where
  "stderr_of evs = concat (map (\<lambda>ev. case ev of StderrData c \<Rightarrow> c | _ \<Rightarrow> []) evs)"

text \<open>
  The final answer of a Codex run as the specification words it: among the lines that
  parse, the last record of type \<open>item.completed\<close> whose item has type
  \<open>agent_message\<close>, and its text; the fallback when there is no such record.
\<close>

definition parsed_records :: "(string \<Rightarrow> js_value option) \<Rightarrow> string \<Rightarrow> js_value list" where
  "parsed_records parse codexOutput = List.map_filter parse (js_split_lines (js_trim codexOutput))"

definition is_final_answer :: "js_value \<Rightarrow> bool" where
  "is_final_answer json =
     (js_get json ''type'' = Some (JStr ''item.completed'')
      \<and> (case js_get json ''item'' of
            None \<Rightarrow> False
          | Some item \<Rightarrow> js_get item ''type'' = Some (JStr ''agent_message'')))"

definition record_text :: "js_value \<Rightarrow> js_value" where
  "record_text json =
     (case js_get json ''item'' of
        None \<Rightarrow> JUndefined
      | Some item \<Rightarrow> (case js_get item ''text'' of None \<Rightarrow> JUndefined | Some t \<Rightarrow> t))"

definition last_final_answer :: "js_value list \<Rightarrow> js_value option" where
  "last_final_answer records =
     (case filter is_final_answer records of [] \<Rightarrow> None | r # rs \<Rightarrow> Some (last (r # rs)))"

definition spec_codex_response :: "(string \<Rightarrow> js_value option) \<Rightarrow> string \<Rightarrow> js_value" where
  "spec_codex_response parse codexOutput =
     (case last_final_answer (parsed_records parse codexOutput) of
        None \<Rightarrow> JStr codex_fallback
      | Some r \<Rightarrow> record_text r)"

subsection \<open>Concrete worlds and agents\<close>

text \<open>The model tables of \<open>lib/types.ts\<close>; a short name that is not listed is passed on.\<close>

definition CLAUDE_MODEL_IDS :: "(string \<times> string) list" where
  "CLAUDE_MODEL_IDS =
     [(''sonnet'', ''claude-sonnet-4-5''),
      (''opus'', ''claude-opus-4-6''),
      (''claude-sonnet-4-5'', ''claude-sonnet-4-5''),
      (''claude-opus-4-6'', ''claude-opus-4-6'')]"

definition CODEX_MODEL_IDS :: "(string \<times> string) list" where
  "CODEX_MODEL_IDS =
     [(''gpt-5.2'', ''gpt-5.2''),
      (''gpt-5.3-codex'', ''gpt-5.3-codex'')]"

definition lookup_or_self :: "(string \<times> string) list \<Rightarrow> string \<Rightarrow> string" where
  "lookup_or_self table m = (case map_of table m of None \<Rightarrow> m | Some i \<Rightarrow> i)"

definition demo_world :: "(spawn_req \<Rightarrow> proc_event list) \<Rightarrow> (string \<Rightarrow> js_value option) \<Rightarrow> world" where
  "demo_world run parse =
     \<lparr>w_now = 1700000000000, w_run = run, w_setup = None, w_SCRIPT_DIR = ''/opt/tinyclaw'',
      w_resolveClaudeModel = lookup_or_self CLAUDE_MODEL_IDS,
      w_resolveCodexModel = lookup_or_self CODEX_MODEL_IDS,
      w_path_isAbsolute = (\<lambda>p. case p of [] \<Rightarrow> False | c # cs \<Rightarrow> c = CHR ''/''),
      w_path_join = (\<lambda>a b. a @ ''/'' @ b),
      w_JSON_parse = parse\<rparr>"

definition demo_agent :: "string \<Rightarrow> string \<Rightarrow> invoke_mode option \<Rightarrow> string option \<Rightarrow> AgentConfig" where
  "demo_agent prov mdl mode host =
     \<lparr>name = ''Researcher'', provider = prov, model = mdl, working_directory = [],
      invoke_mode = mode, remote_host = host, remote_user = Some ''strategist'',
      remote_project_root = Some ''/home/strategist/trading-signal-ai'',
      heartbeat_interval = None, heartbeat_schedule = None, heartbeat_mode = None\<rparr>"

text \<open>
  A Codex run whose only final answer has an empty text: the line it prints and what
  \<open>JSON.parse\<close> makes of it.
\<close>

definition empty_answer_line :: string where
  \<open>empty_answer_line =
     ''{"type":"item.completed","item":{"type":"agent_message","text":""}}''\<close>

definition empty_answer_parse :: "string \<Rightarrow> js_value option" where
  "empty_answer_parse line =
     (if line = empty_answer_line then
        Some (JObj [(''type'', JStr ''item.completed''),
                    (''item'', JObj [(''type'', JStr ''agent_message''), (''text'', JStr [])])])
      else None)"

text \<open>
  A Codex run with a progress line, a line that is no JSON, and a final answer.
\<close>

definition answer_line :: string where
  \<open>answer_line =
     ''{"type":"item.completed","item":{"type":"agent_message","text":"BTC is neutral"}}''\<close>

definition started_line :: string where
  \<open>started_line = ''{"type":"turn.started"}''\<close>

definition answer_parse :: "string \<Rightarrow> js_value option" where
  "answer_parse line =
     (if line = answer_line then
        Some (JObj [(''type'', JStr ''item.completed''),
                    (''item'', JObj [(''type'', JStr ''agent_message''),
                                     (''text'', JStr ''BTC is neutral'')])])
      else if line = started_line then Some (JObj [(''type'', JStr ''turn.started'')])
      else None)"

section \<open>Notification sink (Discord webhook helpers)\<close>

text \<open>
  An HTTP POST to the webhook: the URL and the \<open>content\<close> field of the JSON body. What
  \<open>fetch\<close> does with it is for the world to say: it throws, or it answers with a
  response of which \<open>ok\<close>, the status and the outcome of \<open>text()\<close> matter.
\<close>

record http_post =
  post_url :: string
  post_content :: string

datatype fetch_outcome =
    FetchThrows js_thrown
  | Responded bool nat "js_thrown + string"

datatype discord_effect = Posted http_post | Slept nat

text \<open>
  \<open>WEBHOOK_URL\<close> is read from the environment when the module is loaded. The outcome of
  a POST may depend on everything done so far.
\<close>

record discord_env =
  WEBHOOK_URL :: string
  d_fetch :: "discord_effect list \<Rightarrow> http_post \<Rightarrow> fetch_outcome"

definition MAX_MESSAGE_LENGTH :: nat where
  "MAX_MESSAGE_LENGTH = 1900"

definition sendDiscord :: "discord_env \<Rightarrow> discord_effect list \<Rightarrow> string \<Rightarrow> bool \<times> discord_effect list" where
  "sendDiscord env sent message =
     (if WEBHOOK_URL env = [] then (False, sent)
      else
        (let post = \<lparr>post_url = WEBHOOK_URL env, post_content = take 2000 message\<rparr> in
         case d_fetch env sent post of
           FetchThrows error \<Rightarrow> (False, sent @ [Posted post])
         | Responded ok status body \<Rightarrow>
             if \<not> ok then (False, sent @ [Posted post])
             else (True, sent @ [Posted post])))"

text \<open>
  \<open>s.lastIndexOf(pat, position)\<close>: the greatest index not above \<open>position\<close> at which
  \<open>pat\<close> occurs in \<open>s\<close>; \<open>None\<close> for the result -1.
\<close>

fun last_index_from :: "string \<Rightarrow> string \<Rightarrow> nat \<Rightarrow> nat option" where
  "last_index_from pat s 0 = (if prefix pat s then Some 0 else None)"
| "last_index_from pat s (Suc i) =
     (if prefix pat (drop (Suc i) s) then Some (Suc i) else last_index_from pat s i)"

definition js_lastIndexOf :: "string \<Rightarrow> string \<Rightarrow> nat \<Rightarrow> nat option" where
  "js_lastIndexOf s pat position =
     (if length s < length pat then None
      else last_index_from pat s (min position (length s - length pat)))"

definition splitIndex_of :: "string \<Rightarrow> nat" where
  "splitIndex_of remaining =
     (case js_lastIndexOf remaining [CHR 0x0A, CHR 0x0A] MAX_MESSAGE_LENGTH of
        Some i \<Rightarrow> i
      | None \<Rightarrow>
          (case js_lastIndexOf remaining [CHR 0x0A] MAX_MESSAGE_LENGTH of
             Some i \<Rightarrow> i
           | None \<Rightarrow>
               (case js_lastIndexOf remaining '' '' MAX_MESSAGE_LENGTH of
                  Some i \<Rightarrow> i
                | None \<Rightarrow> MAX_MESSAGE_LENGTH)))"

lemma last_index_from_le: "last_index_from pat s i = Some j \<Longrightarrow> j \<le> i"
  by (induction i) (auto split: if_splits)

lemma last_index_from_prefix: "last_index_from pat s i = Some j \<Longrightarrow> prefix pat (drop j s)"
  by (induction i) (auto split: if_splits)

lemma js_lastIndexOf_le: "js_lastIndexOf s pat p = Some j \<Longrightarrow> j \<le> p"
  by (auto simp: js_lastIndexOf_def split: if_splits dest: last_index_from_le)

lemma js_lastIndexOf_prefix: "js_lastIndexOf s pat p = Some j \<Longrightarrow> prefix pat (drop j s)"
  by (auto simp: js_lastIndexOf_def split: if_splits dest: last_index_from_prefix)

lemma splitIndex_of_le: "splitIndex_of remaining \<le> MAX_MESSAGE_LENGTH"
  by (auto simp: splitIndex_of_def split: option.splits dest: js_lastIndexOf_le)

lemma splitIndex_of_zero:
  assumes "splitIndex_of remaining = 0"
  shows "\<exists>c cs. remaining = c # cs \<and> js_whitespace c"
proof -
  have "\<exists>pat. pat \<in> {[CHR 0x0A, CHR 0x0A], [CHR 0x0A], '' ''} \<and> js_lastIndexOf remaining pat MAX_MESSAGE_LENGTH = Some 0"
    using assms by (auto simp: splitIndex_of_def MAX_MESSAGE_LENGTH_def split: option.splits)
  then obtain pat where pat: "pat \<in> {[CHR 0x0A, CHR 0x0A], [CHR 0x0A], '' ''}"
    and "js_lastIndexOf remaining pat MAX_MESSAGE_LENGTH = Some 0" by blast
  then have "prefix pat remaining" using js_lastIndexOf_prefix by fastforce
  with pat show ?thesis
    by (auto simp: prefix_def js_whitespace_def)
qed

lemma length_js_trim_le: "length (js_trim s) \<le> length s"
proof -
  have "length (dropWhile js_whitespace (rev (dropWhile js_whitespace s)))
          \<le> length (rev (dropWhile js_whitespace s))"
    by (rule length_dropWhile_le)
  also have "\<dots> \<le> length s" by (simp add: length_dropWhile_le)
  finally show ?thesis by (simp add: js_trim_def)
qed

lemma length_js_trim_ws: "js_whitespace c \<Longrightarrow> length (js_trim (c # cs)) < length (c # cs)"
proof -
  assume "js_whitespace c"
  then have "js_trim (c # cs) = js_trim cs" by (simp add: js_trim_def)
  then show ?thesis using length_js_trim_le[of cs] by simp
qed

lemma chunk_step_shorter:
  assumes "MAX_MESSAGE_LENGTH < length remaining"
  shows "length (js_trim (drop (splitIndex_of remaining) remaining)) < length remaining"
proof (cases "splitIndex_of remaining = 0")
  case True
  then obtain c cs where "remaining = c # cs" "js_whitespace c"
    using splitIndex_of_zero by blast
  then show ?thesis using True length_js_trim_ws by simp
next
  case False
  have "length (js_trim (drop (splitIndex_of remaining) remaining))
          \<le> length (drop (splitIndex_of remaining) remaining)"
    by (rule length_js_trim_le)
  also have "\<dots> < length remaining"
    using False assms by (simp add: MAX_MESSAGE_LENGTH_def)
  finally show ?thesis .
qed

text \<open>The \<open>while\<close> loop that fills \<open>chunks\<close>.\<close>

function chunk_loop :: "string \<Rightarrow> string list \<Rightarrow> string list" where
  "chunk_loop remaining chunks =
     (if length remaining > 0 then
        (if length remaining \<le> MAX_MESSAGE_LENGTH then chunks @ [remaining]
         else
           (let splitIndex = splitIndex_of remaining in
            chunk_loop (js_trim (drop splitIndex remaining)) (chunks @ [take splitIndex remaining])))
      else chunks)"
  by pat_completeness auto
termination
  by (relation "measure (\<lambda>(remaining, chunks). length remaining)")
    (auto simp: chunk_step_shorter)

declare chunk_loop.simps [simp del]

text \<open>The loop that sends the chunks, half a second apart.\<close>

fun send_chunks :: "discord_env \<Rightarrow> string list \<Rightarrow> bool \<Rightarrow> discord_effect list \<Rightarrow> bool \<times> discord_effect list" where
  "send_chunks env [] allOk sent = (allOk, sent)"
| "send_chunks env (chunk # chunks) allOk sent =
     (let (ok, sent') = sendDiscord env sent chunk
      in send_chunks env chunks (if \<not> ok then False else allOk) (sent' @ [Slept 500]))"

definition sendDiscordChunked :: "discord_env \<Rightarrow> discord_effect list \<Rightarrow> string \<Rightarrow> bool \<times> discord_effect list" where
  "sendDiscordChunked env sent message =
     (if length message \<le> MAX_MESSAGE_LENGTH then sendDiscord env sent message
      else send_chunks env (chunk_loop message []) True sent)"

definition posts_of :: "discord_effect list \<Rightarrow> http_post list" where
  "posts_of effects = concat (map (\<lambda>e. case e of Posted p \<Rightarrow> [p] | Slept ms \<Rightarrow> []) effects)"

definition post_failed :: "fetch_outcome \<Rightarrow> bool" where
  "post_failed outcome = (case outcome of FetchThrows e \<Rightarrow> True | Responded ok status body \<Rightarrow> \<not> ok)"

definition demo_discord :: "string \<Rightarrow> fetch_outcome \<Rightarrow> discord_env" where
  "demo_discord url outcome = \<lparr>WEBHOOK_URL = url, d_fetch = (\<lambda>sent post. outcome)\<rparr>"

section \<open>Strategy activation (trading-commands handlers, trading-db)\<close>

text \<open>
  The tables of the schema \<open>strategist\<close> that the handler touches. Of a strategy row the
  columns read or written here are kept; \<open>strategy_id\<close> is unique, so the table is a map.
\<close>

record strategy_row =
  status :: string
  backtest_results :: "string option"
  updated_at :: int

record conversation_row =
  conv_role :: string
  conv_content :: string
  conv_command :: "string option"

record database =
  strategies :: "string \<rightharpoonup> strategy_row"
  conversations :: "conversation_row list"

text \<open>
  What the handler cannot decide itself: whether each of its three queries reaches the
  database (\<open>None\<close>) or fails with an error, the database clock, the state directory,
  and two computations left abstract: \<open>buildPrompt\<close>, which wraps the text in the market
  context of the moment, and the warning derived from the backtest metrics, which parses
  JSON and compares and prints floating point numbers.
\<close>

record activate_env =
  insert_fails :: "js_thrown option"
  select_fails :: "js_thrown option"
  update_fails :: "js_thrown option"
  db_now :: int
  stateDir :: string
  buildPrompt :: "string \<Rightarrow> string"
  qualityWarning :: "string \<Rightarrow> string"

text \<open>\<open>/^[a-zA-Z0-9_-]{1,50}$/\<close>\<close>

definition strategy_id_char :: "char \<Rightarrow> bool" where
  "strategy_id_char c =
     (c \<in> set ''abcdefghijklmnopqrstuvwxyzABCDEFGHIJKLMNOPQRSTUVWXYZ0123456789_-'')"

definition STRATEGY_ID_RE_test :: "string \<Rightarrow> bool" where
  "STRATEGY_ID_RE_test id' = (1 \<le> length id' \<and> length id' \<le> 50 \<and> list_all strategy_id_char id')"

definition validateStrategyId :: "string \<Rightarrow> string option" where
  "validateStrategyId id' =
     (if \<not> STRATEGY_ID_RE_test id' then
        Some ''Invalid strategy_id. Use only letters, numbers, hyphens, underscores (max 50 chars).''
      else None)"

text \<open>\<open>logConversation\<close> swallows a failure of its INSERT.\<close>

definition logConversation :: "activate_env \<Rightarrow> database \<Rightarrow> conversation_row \<Rightarrow> database" where
  "logConversation env db params =
     (case insert_fails env of
        Some err \<Rightarrow> db
      | None \<Rightarrow>
          db\<lparr>conversations := conversations db
                @ [params\<lparr>conv_content := take 10000 (conv_content params)\<rparr>]\<rparr>)"

text \<open>\<open>getStrategy\<close> answers \<open>null\<close> for no row and for a failure of its SELECT.\<close>

definition getStrategy :: "activate_env \<Rightarrow> database \<Rightarrow> string \<Rightarrow> strategy_row option" where
  "getStrategy env db strategyId =
     (case select_fails env of
        Some err \<Rightarrow> None
      | None \<Rightarrow> strategies db strategyId)"

text \<open>
  \<open>activateStrategy\<close>: the UPDATE of the row with this id, if there is one; a failure of
  the query is thrown on. The result is whether a row was updated.
\<close>

definition activateStrategy :: "activate_env \<Rightarrow> database \<Rightarrow> string \<Rightarrow> (js_thrown + bool) \<times> database" where
  "activateStrategy env db strategyId =
     (case update_fails env of
        Some err \<Rightarrow> (Inl err, db)
      | None \<Rightarrow>
          (case strategies db strategyId of
             None \<Rightarrow> (Inr False, db)
           | Some row \<Rightarrow>
               (Inr True,
                db\<lparr>strategies := (strategies db)
                      (strategyId \<mapsto> row\<lparr>status := ''paper'', updated_at := db_now env\<rparr>)\<rparr>)))"

text \<open>
  What \<open>buildActivatePrompt\<close> returns: the prompt, and the error message if a validation
  failed. The two copies of the handlers differ in one place only: the older one names
  the fixed directory \<open>strategist/state\<close> in the prompt where the newer one asks
  \<open>getStateDir\<close>.
\<close>

record activate_result =
  res_prompt :: string
  res_error :: "string option"

definition buildActivatePrompt ::
  "activate_env \<Rightarrow> database \<Rightarrow> string \<Rightarrow> (js_thrown + activate_result) \<times> database" where
  "buildActivatePrompt env db strategyId =
     (case validateStrategyId strategyId of
        Some idError \<Rightarrow> (Inr \<lparr>res_prompt = [], res_error = Some idError\<rparr>, db)
      | None \<Rightarrow>
          (let db1 = logConversation env db
                       \<lparr>conv_role = ''user'', conv_content = ''/activate '' @ strategyId,
                        conv_command = Some ''/activate''\<rparr>
           in case getStrategy env db1 strategyId of
                None \<Rightarrow>
                  (Inr \<lparr>res_prompt = [],
                        res_error = Some (''Strategy `'' @ strategyId @
                          ''` not found. Use /strategies to see available strategies.'')\<rparr>, db1)
              | Some strategy \<Rightarrow>
                  if status strategy = ''paper'' \<or> status strategy = ''live'' then
                    (Inr \<lparr>res_prompt = [],
                          res_error = Some (''Strategy `'' @ strategyId @ ''` is already active (status: ''
                            @ status strategy @ '').'')\<rparr>, db1)
                  else if js_missing (backtest_results strategy) then
                    (Inr \<lparr>res_prompt = [],
                          res_error = Some (''Strategy `'' @ strategyId @
                            ''` has no backtest results. Run `/research` first to validate it.'')\<rparr>,
                     db1)
                  else
                    (let warning = qualityWarning env (js_string_of (backtest_results strategy))
                     in case activateStrategy env db1 strategyId of
                          (Inl err, db2) \<Rightarrow> (Inl err, db2)
                        | (Inr updated, db2) \<Rightarrow>
                            (Inr \<lparr>res_prompt = buildPrompt env
                                    (''Strategy '' @ [CHR 0x27] @ strategyId @ [CHR 0x27] @
                                     '' has been activated for paper trading.'' @ warning @ '' '' @
                                     ''Refresh '' @ stateDir env @
                                     ''/active-strategies.json with all active strategies from the DB. '' @
                                     ''Confirm activation with the strategy details.''),
                                  res_error = None\<rparr>, db2))))"

text \<open>All the validations pass, as the handler sees the table.\<close>

definition validations_pass :: "activate_env \<Rightarrow> database \<Rightarrow> string \<Rightarrow> bool" where
  "validations_pass env db strategyId =
     (STRATEGY_ID_RE_test strategyId
      \<and> (case getStrategy env db strategyId of
            None \<Rightarrow> False
          | Some strategy \<Rightarrow>
              status strategy \<noteq> ''paper'' \<and> status strategy \<noteq> ''live''
              \<and> \<not> js_missing (backtest_results strategy)))"

definition demo_activate_env :: activate_env where
  "demo_activate_env =
     \<lparr>insert_fails = None, select_fails = None, update_fails = None, db_now = 1700000000,
      stateDir = ''/opt/tinyclaw/state'', buildPrompt = (\<lambda>m. ''[context] '' @ m),
      qualityWarning = (\<lambda>bt. [])\<rparr>"

definition demo_database :: database where
  \<open>demo_database =
     \<lparr>strategies =
        [''mom-eth'' \<mapsto> \<lparr>status = ''draft'', backtest_results = Some ''{"win_rate":0.58}'', updated_at = 5\<rparr>,
         ''grid-sol'' \<mapsto> \<lparr>status = ''paper'', backtest_results = Some ''{"win_rate":0.61}'', updated_at = 7\<rparr>,
         ''new-idea'' \<mapsto> \<lparr>status = ''draft'', backtest_results = None, updated_at = 9\<rparr>],
      conversations = []\<rparr>\<close>

section \<open>Heartbeat scheduler (the heartbeat shell script)\<close>

text \<open>
  The script runs under \<open>set -euo pipefail\<close>: a command that fails outside a condition
  and outside the left side of \<open>||\<close> ends the script there. It reads the settings
  through \<open>jq\<close>, keeps one file per agent id with the time of the last heartbeat in
  seconds, reads the clock with \<open>date +%s\<close>, and acts on the world by writing its log,
  running scripts, writing queue files, posting to the webhook and removing response
  files.
\<close>

subsection \<open>The settings as \<open>jq\<close> shows them\<close>

text \<open>
  A field of an agent of the settings, as far as the filters of the script tell values
  apart: \<open>null\<close> or absent; \<open>false\<close>; or any other value, with the text that \<open>jq -r\<close>
  prints for it (a number such as \<open>30\<close> or \<open>30.5\<close>, or the raw characters of a
  string), without the final line feed. The \<open>agents\<close> object is the list of its keys with
  their entries, in the order of the file, each key once.
\<close>

datatype jq_field = JqNull | JqFalse | JqPrints string

record heartbeat_settings =
  hb_heartbeat_interval :: jq_field
  hb_heartbeat_mode :: jq_field

text \<open>The alternative operator \<open>a // b\<close> of \<open>jq\<close>, where \<open>b\<close> prints as \<open>d\<close>.\<close>

definition jq_alternative :: "jq_field \<Rightarrow> string \<Rightarrow> string" where
  "jq_alternative a d = (case a of JqPrints t \<Rightarrow> t | JqFalse \<Rightarrow> d | JqNull \<Rightarrow> d)"

text \<open>The path \<open>.agents."ID".field\<close>: indexing a missing agent gives \<open>null\<close>.\<close>

definition jq_agent_field ::
  "(string \<times> heartbeat_settings) list \<Rightarrow> string \<Rightarrow> (heartbeat_settings \<Rightarrow> jq_field) \<Rightarrow> jq_field" where
  "jq_agent_field agents agent_id field =
     (case map_of agents agent_id of None \<Rightarrow> JqNull | Some entry \<Rightarrow> field entry)"

text \<open>
  The agent id is spliced into the text of the filter between double quotes. Without a
  double quote or a backslash in it, that string literal denotes the id itself.
\<close>

definition jq_string_safe :: "string \<Rightarrow> bool" where
  "jq_string_safe s = (CHR 0x22 \<notin> set s \<and> CHR 0x5C \<notin> set s)"

subsection \<open>Words and integers of the shell\<close>

text \<open>
  A command substitution \<open>$(...)\<close> drops the line feeds at the end of the output. An
  unquoted expansion is split into words at the characters of \<open>IFS\<close> (space, tab, line
  feed), and a word with \<open>*\<close>, \<open>?\<close> or \<open>[\<close> in it undergoes pathname expansion.
\<close>

definition command_substitution :: "string \<Rightarrow> string" where
  "command_substitution out = rev (dropWhile (\<lambda>c. c = CHR 0x0A) (rev out))"

definition ifs_char :: "char \<Rightarrow> bool" where
  "ifs_char c = (c = CHR '' '' \<or> c = CHR 0x09 \<or> c = CHR 0x0A)"

fun split_words :: "string \<Rightarrow> string \<Rightarrow> string list" where
  "split_words word [] = (if word = [] then [] else [word])"
| "split_words word (c # cs) =
     (if ifs_char c then (if word = [] then split_words [] cs else word # split_words [] cs)
      else split_words (word @ [c]) cs)"

definition shell_words :: "string \<Rightarrow> string list" where
  "shell_words s = split_words [] s"

definition glob_char :: "char \<Rightarrow> bool" where
  "glob_char c = (c = CHR ''*'' \<or> c = CHR ''?'' \<or> c = CHR ''['')"

text \<open>
  The operands of \<open>[ a -lt b ]\<close> must be integers: blanks, an optional sign, decimal
  digits, blanks, and a value that fits 64 bits. On any other operand the test fails
  with status 2, which an \<open>if\<close> takes as false.
\<close>

fun decimal_value :: "string \<Rightarrow> nat \<Rightarrow> nat option" where
  "decimal_value [] acc = Some acc"
| "decimal_value (c # cs) acc =
     (case map_of (zip ''0123456789'' [0, 1, 2, 3, 4, 5, 6, 7, 8, 9]) c of
        None \<Rightarrow> None
      | Some d \<Rightarrow> decimal_value cs (10 * acc + d))"

definition bash_integer :: "string \<Rightarrow> int option" where
  "bash_integer s =
     (let t = rev (dropWhile (\<lambda>c. c = CHR '' '' \<or> c = CHR 0x09)
                 (rev (dropWhile (\<lambda>c. c \<in> set [CHR '' '', CHR 0x09, CHR 0x0A, CHR 0x0B, CHR 0x0C, CHR 0x0D]) s)));
          negative = (t \<noteq> [] \<and> hd t = CHR ''-'');
          digits = (if t \<noteq> [] \<and> (hd t = CHR ''-'' \<or> hd t = CHR ''+'') then tl t else t)
      in if digits = [] then None
         else (case decimal_value digits 0 of
                 None \<Rightarrow> None
               | Some n \<Rightarrow>
                   (let v = (if negative then - int n else int n)
                    in if - (2 ^ 63) \<le> v \<and> v < 2 ^ 63 then Some v else None)))"

text \<open>
  \<open>[ "$ELAPSED" -lt "$INTERVAL" ]\<close> as a condition. \<open>ELAPSED\<close> comes out of \<open>$((...))\<close> and
  is an integer; \<open>INTERVAL\<close> is the text that \<open>jq\<close> printed.
\<close>

definition test_lt :: "int \<Rightarrow> string \<Rightarrow> bool" where
  "test_lt ELAPSED INTERVAL =
     (case bash_integer INTERVAL of None \<Rightarrow> False | Some i \<Rightarrow> ELAPSED < i)"

subsection \<open>The state and the world\<close>

text \<open>
  The state is the clock, the files of the state directory, and the actions taken so
  far. The clock counts seconds since the epoch, far inside the 64 bits of the
  arithmetic of the shell. A state file is written by \<open>date +%s\<close> and by nothing else, so
  it holds an integer. The actions are: a line appended to the log (its text after the
  time stamp); a run of a heartbeat script (its path); a \<open>curl\<close> POST to the webhook,
  whether it succeeds or not (the content handed to \<open>post_webhook\<close>, which is sent
  JSON-encoded with the line feed that \<open>echo\<close> adds); a message file written to the
  incoming queue (its message id and the agent, prompt and \<open>NOW\<close> that fill the
  here-document); and a response file removed (its path).
\<close>

datatype heartbeat_action =
    Logged string
  | RanScript string
  | PostedWebhook string
  | QueuedMessage string string string int
  | RemovedFile string

record heartbeat_state =
  hs_clock :: int
  hs_last :: "string \<rightharpoonup> int"
  hs_actions :: "heartbeat_action list"

text \<open>
  The commands of the loop whose failure ends the script: the \<open>jq\<close> that lists the agent
  ids, the two \<open>jq\<close> that read the interval and the mode of an id, the \<open>cat\<close> of a state
  file, the \<open>tee -a\<close> of a log line, the \<open>cat\<close> of a \<open>heartbeat.md\<close>, the writing of a
  queue file, the \<open>rm -f\<close> of a response file, and the writing of a state file. The
  other commands of the loop stand in a condition, on the left of \<open>||\<close>, or are
  assignments, \<open>sleep\<close> and \<open>date\<close>.
\<close>

datatype shell_command =
    ListAgentIds
  | ReadInterval string
  | ReadMode string
  | ReadLast string
  | WriteLog string
  | ReadHeartbeatMd string
  | WriteQueue string
  | RemoveResponse string
  | WriteLast string

text \<open>
  What the script finds. \<open>h_GLOBAL_INTERVAL\<close> is what \<open>jq\<close> prints for the text of
  \<open>$GLOBAL_INTERVAL\<close> spliced into the filter as the alternative (\<open>None\<close>: a filter with
  that text in it fails). \<open>h_fails\<close> says whether a command fails in a state;
  \<open>h_jq_other\<close> is the outcome of a filter with an id in it that has a double quote or
  a backslash (\<open>None\<close>: it fails); \<open>h_glob\<close> is the pathname expansion of a word;
  \<open>h_script\<close> gives, for the path of an executable file, the output of its run (both
  streams, without the line feeds at the end), its exit status and the seconds it
  takes; \<open>h_heartbeat_md\<close> the content of a file as \<open>$(cat ...)\<close> yields it; \<open>h_responses\<close>
  the response files found for a message id after the wait, each with what
  \<open>jq -r '.message' ... || echo ""\<close> yields for it; \<open>h_curl_ok\<close> whether a POST succeeds.
\<close>

record heartbeat_env =
  h_WEBHOOK_URL :: string
  h_WORKSPACE_DIR :: string
  h_GLOBAL_INTERVAL :: "string option"
  h_pid :: nat
  h_fails :: "shell_command \<Rightarrow> heartbeat_state \<Rightarrow> bool"
  h_jq_other :: "string \<Rightarrow> string \<Rightarrow> string option"
  h_glob :: "string \<Rightarrow> string list"
  h_script :: "string \<Rightarrow> (string \<times> int \<times> nat) option"
  h_heartbeat_md :: "string \<Rightarrow> string option"
  h_responses :: "string \<Rightarrow> (string \<times> string) list"
  h_curl_ok :: "string \<Rightarrow> heartbeat_state \<Rightarrow> bool"

text \<open>A run of a piece of the script either goes on or has ended the script.\<close>

datatype run = Running heartbeat_state | Exited heartbeat_state

definition and_then :: "run \<Rightarrow> (heartbeat_state \<Rightarrow> run) \<Rightarrow> run" where
  "and_then r f = (case r of Running st \<Rightarrow> f st | Exited st \<Rightarrow> Exited st)"


subsection \<open>The functions of the script\<close>

definition TICK_INTERVAL :: int where
  "TICK_INTERVAL = 60"

definition log_sh :: "heartbeat_env \<Rightarrow> string \<Rightarrow> heartbeat_state \<Rightarrow> run" where
  "log_sh env message st =
     (if h_fails env (WriteLog message) st then Exited st
      else Running (st\<lparr>hs_actions := hs_actions st @ [Logged message]\<rparr>))"

text \<open>\<open>None\<close>: the \<open>cat\<close> of the state file failed.\<close>

definition get_last_heartbeat :: "heartbeat_env \<Rightarrow> heartbeat_state \<Rightarrow> string \<Rightarrow> int option" where
  "get_last_heartbeat env st agent_id =
     (case hs_last st agent_id of
        None \<Rightarrow> Some 0
      | Some t \<Rightarrow> if h_fails env (ReadLast agent_id) st then None else Some t)"

definition set_last_heartbeat :: "heartbeat_env \<Rightarrow> string \<Rightarrow> heartbeat_state \<Rightarrow> run" where
  "set_last_heartbeat env agent_id st =
     (if h_fails env (WriteLast agent_id) st then Exited st
      else Running (st\<lparr>hs_last := (hs_last st)(agent_id \<mapsto> hs_clock st)\<rparr>))"

definition post_webhook :: "heartbeat_env \<Rightarrow> string \<Rightarrow> heartbeat_state \<Rightarrow> run" where
  "post_webhook env content st =
     (if h_WEBHOOK_URL env \<noteq> [] then
        (let st1 = st\<lparr>hs_actions := hs_actions st @ [PostedWebhook content]\<rparr>
         in if h_curl_ok env content st then Running st1
            else log_sh env ''WARN: Failed to post to webhook'' st1)
      else Running st)"

subsection \<open>The loop body\<close>

text \<open>The two \<open>jq\<close> calls that read the interval and the mode of an id.\<close>

definition read_INTERVAL ::
  "heartbeat_env \<Rightarrow> (string \<times> heartbeat_settings) list \<Rightarrow> string \<Rightarrow> heartbeat_state \<Rightarrow> string option" where
  "read_INTERVAL env agents AGENT_ID st =
     (if h_fails env (ReadInterval AGENT_ID) st then None
      else if \<not> jq_string_safe AGENT_ID then h_jq_other env ''heartbeat_interval'' AGENT_ID
      else (case h_GLOBAL_INTERVAL env of
              None \<Rightarrow> None
            | Some GLOBAL_INTERVAL \<Rightarrow>
                Some (jq_alternative (jq_agent_field agents AGENT_ID hb_heartbeat_interval)
                        GLOBAL_INTERVAL)))"

definition read_MODE ::
  "heartbeat_env \<Rightarrow> (string \<times> heartbeat_settings) list \<Rightarrow> string \<Rightarrow> heartbeat_state \<Rightarrow> string option" where
  "read_MODE env agents AGENT_ID st =
     (if h_fails env (ReadMode AGENT_ID) st then None
      else if \<not> jq_string_safe AGENT_ID then h_jq_other env ''heartbeat_mode'' AGENT_ID
      else Some (jq_alternative (jq_agent_field agents AGENT_ID hb_heartbeat_mode) ''claude''))"

text \<open>The loop over the response files of one message.\<close>

fun collect_responses ::
  "heartbeat_env \<Rightarrow> string \<Rightarrow> (string \<times> string) list \<Rightarrow> heartbeat_state \<Rightarrow> run" where
  "collect_responses env AGENT_ID [] st = Running st"
| "collect_responses env AGENT_ID ((RESPONSE_FILE, RESPONSE) # rest) st =
     (if RESPONSE \<noteq> [] then
        and_then
          (log_sh env (''  '' @ [CHR 0xE2, CHR 0x86, CHR 0x90] @ '' @'' @ AGENT_ID @ '': ''
                         @ take 120 RESPONSE @ ''...'') st)
          (\<lambda>st1. and_then
             (post_webhook env
                (''**@'' @ AGENT_ID @ '' heartbeat:**'' @ [CHR 0x5C, CHR ''n''] @ take 1800 RESPONSE)
                st1)
             (\<lambda>st2. if h_fails env (RemoveResponse RESPONSE_FILE) st2 then Exited st2
                    else collect_responses env AGENT_ID rest
                           (st2\<lparr>hs_actions := hs_actions st2 @ [RemovedFile RESPONSE_FILE]\<rparr>)))
      else collect_responses env AGENT_ID rest st)"

text \<open>The paths and the message id that the loop body builds from the agent id.\<close>

definition HEARTBEAT_SCRIPT :: "heartbeat_env \<Rightarrow> string \<Rightarrow> string" where
  "HEARTBEAT_SCRIPT env AGENT_ID = h_WORKSPACE_DIR env @ ''/'' @ AGENT_ID @ ''/heartbeat.sh''"

definition HEARTBEAT_FILE :: "heartbeat_env \<Rightarrow> string \<Rightarrow> string" where
  "HEARTBEAT_FILE env AGENT_ID = h_WORKSPACE_DIR env @ ''/'' @ AGENT_ID @ ''/heartbeat.md''"

text \<open>\<open>heartbeat_${AGENT_ID}_$(date +%s)_$$\<close>, with the reading of the clock as an argument.\<close>

definition MESSAGE_ID :: "heartbeat_env \<Rightarrow> string \<Rightarrow> int \<Rightarrow> string" where
  "MESSAGE_ID env AGENT_ID clock =
     ''heartbeat_'' @ AGENT_ID @ ''_'' @ show_int clock @ ''_'' @ show_nat (h_pid env)"

text \<open>
  The prompt of a Claude-mode heartbeat with the line that the log gets about it: the
  content of \<open>heartbeat.md\<close> if the file is there (\<open>None\<close>: its \<open>cat\<close> failed), the
  default prompt otherwise.
\<close>

definition read_PROMPT :: "heartbeat_env \<Rightarrow> string \<Rightarrow> heartbeat_state \<Rightarrow> (string \<times> string) option" where
  "read_PROMPT env AGENT_ID st =
     (case h_heartbeat_md env (HEARTBEAT_FILE env AGENT_ID) of
        Some content \<Rightarrow>
          if h_fails env (ReadHeartbeatMd (HEARTBEAT_FILE env AGENT_ID)) st then None
          else Some (content, ''  Using heartbeat.md from workspace/'' @ AGENT_ID @ ''/'')
      | None \<Rightarrow>
          Some (''Quick status check: Any pending tasks? Keep response brief.'',
                ''  Using default heartbeat prompt''))"

text \<open>What the loop body does once the heartbeat is due: the script or the queue.\<close>

definition heartbeat_fire ::
  "heartbeat_env \<Rightarrow> int \<Rightarrow> string \<Rightarrow> string \<Rightarrow> heartbeat_state \<Rightarrow> run" where
  "heartbeat_fire env NOW AGENT_ID MODE st =
     (if MODE = ''script'' then
        (case h_script env (HEARTBEAT_SCRIPT env AGENT_ID) of
           Some (SCRIPT_OUTPUT, exit_status, seconds) \<Rightarrow>
             and_then (log_sh env (''  Running script: '' @ HEARTBEAT_SCRIPT env AGENT_ID) st)
               (\<lambda>st1.
                  and_then
                    (log_sh env (''  Script output: '' @ take 200 SCRIPT_OUTPUT)
                       (st1\<lparr>hs_clock := hs_clock st1 + int seconds,
                             hs_actions := hs_actions st1 @ [RanScript (HEARTBEAT_SCRIPT env AGENT_ID)]\<rparr>))
                    (\<lambda>st3. if SCRIPT_OUTPUT \<noteq> [] then post_webhook env SCRIPT_OUTPUT st3
                            else Running st3))
         | None \<Rightarrow>
             log_sh env (''  WARN: No executable heartbeat.sh at '' @ HEARTBEAT_SCRIPT env AGENT_ID) st)
      else
        (case read_PROMPT env AGENT_ID st of
           None \<Rightarrow> Exited st
         | Some (PROMPT, note) \<Rightarrow>
             and_then (log_sh env note st)
               (\<lambda>st1.
                  if h_fails env (WriteQueue (MESSAGE_ID env AGENT_ID (hs_clock st1))) st1
                  then Exited st1
                  else
                    and_then
                      (log_sh env
                         (''  '' @ [CHR 0xE2, CHR 0x9C, CHR 0x93] @ '' Queued heartbeat for @''
                            @ AGENT_ID @ '': '' @ MESSAGE_ID env AGENT_ID (hs_clock st1))
                         (st1\<lparr>hs_actions := hs_actions st1
                                 @ [QueuedMessage (MESSAGE_ID env AGENT_ID (hs_clock st1)) AGENT_ID
                                      PROMPT NOW]\<rparr>))
                      (\<lambda>st3. collect_responses env AGENT_ID
                               (h_responses env (MESSAGE_ID env AGENT_ID (hs_clock st1)))
                               (st3\<lparr>hs_clock := hs_clock st3 + 5\<rparr>)))))"

text \<open>The body of the \<open>for\<close> loop, for one word of the list of ids, at the tick time \<open>NOW\<close>.\<close>

definition heartbeat_agent ::
  "heartbeat_env \<Rightarrow> (string \<times> heartbeat_settings) list \<Rightarrow> int \<Rightarrow> string \<Rightarrow> heartbeat_state \<Rightarrow> run" where
  "heartbeat_agent env agents NOW AGENT_ID st =
     (case read_INTERVAL env agents AGENT_ID st of
        None \<Rightarrow> Exited st
      | Some INTERVAL \<Rightarrow>
          (case read_MODE env agents AGENT_ID st of
             None \<Rightarrow> Exited st
           | Some MODE \<Rightarrow>
               (case get_last_heartbeat env st AGENT_ID of
                  None \<Rightarrow> Exited st
                | Some LAST \<Rightarrow>
                    (let ELAPSED = NOW - LAST
                     in if test_lt ELAPSED INTERVAL then Running st
                        else
                          and_then
                            (log_sh env
                               (''Heartbeat due for @'' @ AGENT_ID @ '' (elapsed: '' @ show_int ELAPSED
                                  @ ''s, interval: '' @ INTERVAL @ ''s, mode: '' @ MODE @ '')'') st)
                            (\<lambda>st1. and_then (heartbeat_fire env NOW AGENT_ID MODE st1)
                                     (set_last_heartbeat env AGENT_ID))))))"

fun heartbeat_agents ::
  "heartbeat_env \<Rightarrow> (string \<times> heartbeat_settings) list \<Rightarrow> int \<Rightarrow> string list \<Rightarrow> heartbeat_state \<Rightarrow> run" where
  "heartbeat_agents env agents NOW [] st = Running st"
| "heartbeat_agents env agents NOW (AGENT_ID # rest) st =
     and_then (heartbeat_agent env agents NOW AGENT_ID st) (heartbeat_agents env agents NOW rest)"

text \<open>
  One turn of the \<open>while\<close> loop: the sleep, the reading of the clock, the list of the keys
  of the agents whose \<open>heartbeat_interval\<close> is not \<open>null\<close>, one on a line, and the loop
  over the words of that list.
\<close>

definition heartbeat_tick ::
  "heartbeat_env \<Rightarrow> (string \<times> heartbeat_settings) list \<Rightarrow> heartbeat_state \<Rightarrow> run" where
  "heartbeat_tick env agents st =
     (let st0 = st\<lparr>hs_clock := hs_clock st + TICK_INTERVAL\<rparr>;
          NOW = hs_clock st0
      in if h_fails env ListAgentIds st0 then Exited st0
         else
           (let AGENT_IDS = command_substitution
                  (concat (map (\<lambda>agent. fst agent @ [CHR 0x0A])
                     (filter (\<lambda>agent. hb_heartbeat_interval (snd agent) \<noteq> JqNull) agents)))
            in if AGENT_IDS = [] then Running st0
               else heartbeat_agents env agents NOW
                      (concat (map (\<lambda>word. if list_ex glob_char word then h_glob env word else [word])
                         (shell_words AGENT_IDS)))
                      st0))"

subsection \<open>Vocabulary of the properties\<close>




definition effects :: "heartbeat_action list \<Rightarrow> heartbeat_action list" where
  "effects acts = filter (\<lambda>a. case a of Logged message \<Rightarrow> False | _ \<Rightarrow> True) acts"




subsection \<open>Concrete worlds\<close>

definition demo_heartbeat_env :: heartbeat_env where
  "demo_heartbeat_env =
     \<lparr>h_WEBHOOK_URL = ''https://discord.test/hook'',
      h_WORKSPACE_DIR = ''/srv/tinyclaw/workspace'',
      h_GLOBAL_INTERVAL = Some ''3600'',
      h_pid = 4242,
      h_fails = (\<lambda>c st. False),
      h_jq_other = (\<lambda>field agent_id. None),
      h_glob = (\<lambda>word. [word]),
      h_script = (\<lambda>path. if path = ''/srv/tinyclaw/workspace/monitor/heartbeat.sh''
                          then Some ([], 1, 2) else None),
      h_heartbeat_md = (\<lambda>path. None),
      h_responses = (\<lambda>message_id. []),
      h_curl_ok = (\<lambda>content st. True)\<rparr>"




text \<open>
  A world in which the heartbeat script of \<open>monitor\<close> prints 5000 characters, and every
  queued message has found a response of 5000 characters after the wait.
\<close>

definition verbose_env :: heartbeat_env where
  "verbose_env =
     demo_heartbeat_env
       \<lparr>h_script := (\<lambda>path. if path = ''/srv/tinyclaw/workspace/monitor/heartbeat.sh''
                             then Some (replicate 5000 CHR ''x'', 0, 2) else None),
        h_responses := (\<lambda>message_id.
                          [(''/srv/tinyclaw/.tinyclaw/queue/outgoing/'' @ message_id @ ''.json'',
                            replicate 5000 CHR ''y'')])\<rparr>"

section \<open>Team chain orchestrator\<close>

text \<open>
  Modelled from the spec: the events of a chain run (the queue processor that emits
  them is not among the sources). Section 4.3 names them with what each carries: the
  agent and the step index; the agent and its output; the agent handing off, the agent
  taking over and the step index; the full member list.
\<close>

datatype chain_event =
    StepStarted string nat
  | StepDone string string
  | Handoff string string nat
  | ChainEnded "string list"

text \<open>
  Modelled from the spec: the team descriptor of section 3, an id, a display name, the
  ordered list of member agent ids and the leader.
\<close>

record TeamDescriptor =
  team_id :: string
  team_name :: string
  members :: "string list"
  leader :: string

text \<open>
  Modelled from the spec: how a chain run ends (the queue processor is not among the
  sources): with the output of the final member, which becomes the response;
  or with a fatal chain error, reported back as the response: a member that is absent
  from the agent configuration (section 4.3), or an invocation that failed (section 7,
  class 3: captured and surfaced as the response text).
\<close>

datatype chain_outcome =
    Completed string
  | UnknownMember string
  | InvocationFailed string string

text \<open>
  Modelled from the spec: the chain execution of the Team Chain Orchestrator (the queue
  processor that runs chains is not among the sources; only the visualizer that reads
  its events is). Section 4.3: for each member in order, emit step-started, call the
  Invocation Engine with the running current message (first the original payload, then
  the output of the step before), emit step-done with the output, and, if another member
  follows, emit a handoff carrying from, to and the step index before advancing; at the
  end emit chain-ended carrying the full member list. \<open>configured\<close> says which agent ids
  the agent configuration holds, and \<open>invoke\<close> is the Invocation Engine: the output, or
  the text of its failure. Steps are counted from 1.
\<close>

fun chain_steps ::
  "(string \<Rightarrow> bool) \<Rightarrow> (string \<Rightarrow> string \<Rightarrow> string + string) \<Rightarrow> nat \<Rightarrow> string \<Rightarrow> string list
     \<Rightarrow> chain_event list \<times> chain_outcome" where
  "chain_steps configured invoke i current [] = ([], Completed current)"
| "chain_steps configured invoke i current (m # rest) =
     (if \<not> configured m then ([], UnknownMember m)
      else
        (case invoke m current of
           Inl failure \<Rightarrow> ([StepStarted m i], InvocationFailed m failure)
         | Inr output \<Rightarrow>
             (let handoff = (case rest of [] \<Rightarrow> [] | next_member # later \<Rightarrow> [Handoff m next_member i]);
                  (events, outcome) = chain_steps configured invoke (Suc i) output rest
              in ([StepStarted m i, StepDone m output] @ handoff @ events, outcome))))"

text \<open>
  Modelled from the spec: one chain execution for a team and an original payload
  (section 4.3, the terminal state): chain-ended is emitted when the last step is done.
\<close>

definition run_chain ::
  "(string \<Rightarrow> bool) \<Rightarrow> (string \<Rightarrow> string \<Rightarrow> string + string) \<Rightarrow> TeamDescriptor \<Rightarrow> string
     \<Rightarrow> chain_event list \<times> chain_outcome" where
  "run_chain configured invoke team payload =
     (case chain_steps configured invoke 1 payload (members team) of
        (events, Completed output) \<Rightarrow> (events @ [ChainEnded (members team)], Completed output)
      | (events, UnknownMember m) \<Rightarrow> (events, UnknownMember m)
      | (events, InvocationFailed m failure) \<Rightarrow> (events, InvocationFailed m failure))"

text \<open>The kinds of events, to speak of their number and their order.\<close>

datatype event_kind = KStarted | KDone | KHandoff | KEnded

fun kind_of :: "chain_event \<Rightarrow> event_kind" where
  "kind_of (StepStarted a i) = KStarted"
| "kind_of (StepDone a out) = KDone"
| "kind_of (Handoff a b i) = KHandoff"
| "kind_of (ChainEnded ms) = KEnded"

definition count_kind :: "event_kind \<Rightarrow> chain_event list \<Rightarrow> nat" where
  "count_kind k events = length (filter (\<lambda>e. kind_of e = k) events)"

text \<open>Every invocation the chain makes for these members returns an output.\<close>

fun invocations_succeed :: "(string \<Rightarrow> string \<Rightarrow> string + string) \<Rightarrow> string \<Rightarrow> string list \<Rightarrow> bool" where
  "invocations_succeed invoke current [] = True"
| "invocations_succeed invoke current (m # rest) =
     (case invoke m current of
        Inl failure \<Rightarrow> False
      | Inr output \<Rightarrow> invocations_succeed invoke output rest)"

text \<open>The agents of the step-done events and the pairs of the handoff events, in order.\<close>

definition done_agents :: "chain_event list \<Rightarrow> string list" where
  "done_agents events = concat (map (\<lambda>e. case e of StepDone a out \<Rightarrow> [a] | _ \<Rightarrow> []) events)"

definition handoff_pairs :: "chain_event list \<Rightarrow> (string \<times> string) list" where
  "handoff_pairs events = concat (map (\<lambda>e. case e of Handoff a b i \<Rightarrow> [(a, b)] | _ \<Rightarrow> []) events)"

definition scenario_team :: "string list \<Rightarrow> TeamDescriptor" where
  "scenario_team ms = \<lparr>team_id = ''trading'', team_name = ''Trading desk'', members = ms, leader = ''a''\<rparr>"

definition scenario_invoke :: "string \<Rightarrow> string \<Rightarrow> string + string" where
  "scenario_invoke agent message =
     (if agent = ''a'' \<and> message = ''X'' then Inr ''Y''
      else if agent = ''b'' \<and> message = ''Y'' then Inr ''Z''
      else Inl (''agent '' @ agent @ '' exited with code 1''))"

section \<open>Retry wrapper: properties\<close>

lemma withRetry_loop_succeeds_after:
  assumes "int (a + k) < maxRetries"
    and "\<forall>i<k. \<exists>e. call_result fn i s = Inl e \<and> isTransientError e"
    and "call_result fn k s = Inr v"
  shows "withRetry_loop fn maxRetries baseDelayMs label a slept s =
           \<lparr>rr_outcome = Inr v,
            rr_slept = slept @ map (\<lambda>i. baseDelayMs * 2 ^ (a + i)) [0..<k],
            rr_attempts = a + k + 1,
            rr_state = state_before_call fn (Suc k) s\<rparr>"
  using assms
proof (induction k arbitrary: a slept s)
  case 0
  then show ?case
    by (subst withRetry_loop.simps) (auto simp: call_result_def split: prod.splits sum.splits)
next
  case (Suc k)
  from Suc.prems(2) obtain e where e: "call_result fn 0 s = Inl e" "isTransientError e"
    by auto
  obtain s' where s': "fn s = (Inl e, s')"
    using e(1) by (cases "fn s") (auto simp: call_result_def)
  have shift: "\<And>i. call_result fn (Suc i) s = call_result fn i s'"
    using s' by (simp add: call_result_def)
  have "int (Suc a + k) < maxRetries"
    using Suc.prems(1) by simp
  moreover have "\<forall>i<k. \<exists>e. call_result fn i s' = Inl e \<and> isTransientError e"
    using Suc.prems(2) shift by (metis Suc_less_eq)
  moreover have "call_result fn k s' = Inr v"
    using Suc.prems(3) shift by simp
  ultimately have IH: "withRetry_loop fn maxRetries baseDelayMs label (Suc a) (slept @ [baseDelayMs * 2 ^ a]) s' =
           \<lparr>rr_outcome = Inr v,
            rr_slept = (slept @ [baseDelayMs * 2 ^ a]) @ map (\<lambda>i. baseDelayMs * 2 ^ (Suc a + i)) [0..<k],
            rr_attempts = Suc a + k + 1,
            rr_state = state_before_call fn (Suc k) s'\<rparr>"
    by (rule Suc.IH)
  have m: "map (\<lambda>i. baseDelayMs * 2 ^ (a + i)) [0..<Suc k]
         = (baseDelayMs * 2 ^ a) # map (\<lambda>i. baseDelayMs * 2 ^ (Suc a + i)) [0..<k]"
    by (simp only: upt_conv_Cons[of 0 "Suc k"] map_Suc_upt[symmetric]) (simp add: comp_def)
  have lt: "int a < maxRetries" using Suc.prems(1) by simp
  show ?case
    apply (subst withRetry_loop.simps)
    using lt e(2) s' IH m by (simp del: upt_Suc)
qed

lemma withRetry_loop_attempts_le:
  "int a \<le> maxRetries + 1 \<Longrightarrow>
   int (rr_attempts (withRetry_loop fn maxRetries baseDelayMs label a slept s)) \<le> maxRetries + 1"
proof (induction fn maxRetries baseDelayMs label a slept s rule: withRetry_loop.induct)
  case (1 fn maxRetries baseDelayMs label attempt slept s)
  show ?case
  proof (cases "int attempt \<le> maxRetries")
    case False
    then show ?thesis using "1.prems" by (subst withRetry_loop.simps) simp
  next
    case True
    obtain r s' where fs: "fn s = (r, s')" by (cases "fn s")
    show ?thesis
    proof (cases r)
      case (Inr v)
      then show ?thesis using True fs by (subst withRetry_loop.simps) simp
    next
      case (Inl err)
      show ?thesis
      proof (cases "int attempt = maxRetries \<or> \<not> isTransientError err")
        case True
        then show ?thesis using \<open>int attempt \<le> maxRetries\<close> fs Inl by (subst withRetry_loop.simps) auto
      next
        case False
        then have "int (attempt + 1) \<le> maxRetries + 1" using \<open>int attempt \<le> maxRetries\<close> by simp
        with "1.IH"[OF \<open>int attempt \<le> maxRetries\<close> fs[symmetric] Inl False] 
        show ?thesis using False \<open>int attempt \<le> maxRetries\<close> fs Inl
          by (subst withRetry_loop.simps) simp
      qed
    qed
  qed
qed

text \<open>
  Claim C1. If the first \<open>k\<close> calls of the operation are rejected with errors that
  \<open>isTransientError\<close> accepts, the next call succeeds with \<open>v\<close>, and \<open>k\<close> is below
  \<open>maxRetries\<close>, then \<open>withRetry\<close> resolves with \<open>v\<close>, the delays slept are
  \<open>baseDelayMs * 2^0, ..., baseDelayMs * 2^(k-1)\<close> in this order, and the operation was
  called \<open>k + 1\<close> times. For every operation and every non-negative \<open>maxRetries\<close> the
  operation is called at most \<open>maxRetries + 1\<close> times.
\<close>

theorem withRetry_transient_then_success:
  "(int k < maxRetries_of opts
      \<and> (\<forall>i<k. \<exists>e. call_result fn i s = Inl e \<and> isTransientError e)
      \<and> call_result fn k s = Inr v \<longrightarrow>
        rr_outcome (withRetry fn opts s) = Inr v
      \<and> rr_slept (withRetry fn opts s) = map (\<lambda>i. baseDelayMs_of opts * 2 ^ i) [0..<k]
      \<and> rr_attempts (withRetry fn opts s) = k + 1)
   \<and> (0 \<le> maxRetries_of opts \<longrightarrow>
        int (rr_attempts (withRetry fn opts s)) \<le> maxRetries_of opts + 1)"
proof (intro conjI impI)
  assume h: "int k < maxRetries_of opts
      \<and> (\<forall>i<k. \<exists>e. call_result fn i s = Inl e \<and> isTransientError e)
      \<and> call_result fn k s = Inr v"
  then have "int (0 + k) < maxRetries_of opts" by simp
  from withRetry_loop_succeeds_after[OF this, of fn s v "baseDelayMs_of opts" "label_of opts" "[]"] h
  have run: "withRetry fn opts s =
           \<lparr>rr_outcome = Inr v,
            rr_slept = map (\<lambda>i. baseDelayMs_of opts * 2 ^ i) [0..<k],
            rr_attempts = k + 1,
            rr_state = state_before_call fn (Suc k) s\<rparr>"
    by (simp add: withRetry_def)
  show "rr_outcome (withRetry fn opts s) = Inr v" by (simp add: run)
  show "rr_slept (withRetry fn opts s) = map (\<lambda>i. baseDelayMs_of opts * 2 ^ i) [0..<k]"
    by (simp add: run)
  show "rr_attempts (withRetry fn opts s) = k + 1" by (simp add: run)
next
  assume "0 \<le> maxRetries_of opts"
  then show "int (rr_attempts (withRetry fn opts s)) \<le> maxRetries_of opts + 1"
    unfolding withRetry_def by (intro withRetry_loop_attempts_le) simp
qed

theorem withRetry_transient_then_success_witness:
  "rr_outcome (withRetry flaky_twice \<lparr>opt_maxRetries = Some 3, opt_baseDelayMs = Some 1000, opt_label = None\<rparr> 0) = Inr 42
   \<and> rr_slept (withRetry flaky_twice \<lparr>opt_maxRetries = Some 3, opt_baseDelayMs = Some 1000, opt_label = None\<rparr> 0) = [1000, 2000]
   \<and> rr_attempts (withRetry flaky_twice \<lparr>opt_maxRetries = Some 3, opt_baseDelayMs = Some 1000, opt_label = None\<rparr> 0) = 3"
proof -
  let ?opts = "\<lparr>opt_maxRetries = Some 3, opt_baseDelayMs = Some 1000, opt_label = None\<rparr>"
  have tr: "isTransientError (JsError ''connect ETIMEDOUT 10.0.0.1:443'')"
    by code_simp
  have c0: "call_result flaky_twice 0 0 = Inl (JsError ''connect ETIMEDOUT 10.0.0.1:443'')"
    by (simp add: call_result_def flaky_twice_def)
  have c1: "call_result flaky_twice 1 0 = Inl (JsError ''connect ETIMEDOUT 10.0.0.1:443'')"
    by (simp add: call_result_def flaky_twice_def)
  have c2: "call_result flaky_twice 2 0 = Inr 42"
    by (simp add: call_result_def flaky_twice_def eval_nat_numeral)
  have fails: "\<forall>i<2. \<exists>e. call_result flaky_twice i 0 = Inl e \<and> isTransientError e"
  proof (intro allI impI)
    fix i :: nat assume "i < 2"
    then have "i = 0 \<or> i = 1" by auto
    then show "\<exists>e. call_result flaky_twice i 0 = Inl e \<and> isTransientError e"
      using c0 c1 tr by auto
  qed
  have "int 2 < maxRetries_of ?opts" by (simp add: maxRetries_of_def)
  with fails c2 withRetry_transient_then_success[of 2 ?opts flaky_twice 0 42]
  show ?thesis by (simp add: baseDelayMs_of_def upt_rec)
qed

section \<open>Invocation engine: properties\<close>

lemma settle_settled: "p \<noteq> Pending \<Longrightarrow> settle p q = p"
  by (cases p) (simp_all add: settle_def)

lemma settle_Pending: "settle Pending q = q"
  by (simp add: settle_def)

lemma runCommand_event_settled:
  "cs_promise cs \<noteq> Pending \<Longrightarrow> cs_promise (runCommand_event t cs ev) = cs_promise cs"
  by (cases ev) (auto simp: settle_settled split: option.splits)

lemma runCommand_events_settled:
  "cs_promise cs \<noteq> Pending \<Longrightarrow> cs_promise (foldl (runCommand_event t) cs evs) = cs_promise cs"
  by (induction evs arbitrary: cs) (simp_all add: runCommand_event_settled)

lemma runCommand_events_data:
  "list_all is_data evs \<Longrightarrow>
   foldl (runCommand_event t) cs evs
     = cs\<lparr>cs_stdout := cs_stdout cs @ stdout_of evs, cs_stderr := cs_stderr cs @ stderr_of evs\<rparr>"
proof (induction evs arbitrary: cs)
  case Nil
  then show ?case by (simp add: stdout_of_def stderr_of_def)
next
  case (Cons ev evs)
  then show ?case
    by (cases ev) (simp_all add: is_data_def stdout_of_def stderr_of_def)
qed

lemma runCommand_close:
  assumes "w_run w (runCommand_req w command args cwd) = pre @ CloseEvent code # post"
    and "list_all is_data pre"
  shows "runCommand w command args cwd timeoutMs =
     ((if code = Some 0 then Resolved (stdout_of pre)
       else Rejected (JsError (if js_trim (stderr_of pre) = []
                               then ''Command exited with code '' @ show_code code
                               else js_trim (stderr_of pre)))),
      [runCommand_req w command args cwd])"
proof -
  let ?cs = "foldl (runCommand_event timeoutMs) (runCommand_init timeoutMs) pre"
  have pre: "?cs = (runCommand_init timeoutMs)\<lparr>cs_stdout := stdout_of pre, cs_stderr := stderr_of pre\<rparr>"
    using assms(2) by (simp add: runCommand_events_data runCommand_init_def)
  let ?cs' = "runCommand_event timeoutMs ?cs (CloseEvent code)"
  have p: "cs_promise ?cs' = (if code = Some 0 then Resolved (stdout_of pre)
       else Rejected (JsError (if js_trim (stderr_of pre) = []
                               then ''Command exited with code '' @ show_code code
                               else js_trim (stderr_of pre))))"
    unfolding pre by (simp add: runCommand_init_def settle_Pending js_or_def)
  then have "cs_promise ?cs' \<noteq> Pending" by simp
  then have "cs_promise (foldl (runCommand_event timeoutMs) ?cs' post) = cs_promise ?cs'"
    by (rule runCommand_events_settled)
  with p show ?thesis
    by (simp add: runCommand_def assms(1) Let_def)
qed

lemma invokeAgent_local_runCommand:
  assumes "invoke_mode agent \<noteq> Some Remote" and "w_setup w = None"
  shows "\<exists>cmd args cwd f.
           invokeAgent w agent agentId message workspacePath shouldReset
             = (map_promise f (fst (runCommand w cmd args cwd (Some LOCAL_TIMEOUT_MS))),
                snd (runCommand w cmd args cwd (Some LOCAL_TIMEOUT_MS)))"
proof (cases "js_or (provider agent) ''anthropic'' = ''openai''")
  case True
  show ?thesis
    unfolding invokeAgent_def Let_def case_prod_unfold
    apply (simp only: assms True option.case if_False if_True simp_thms)
    apply (intro exI)
    apply (rule refl)
    done
next
  case False
  show ?thesis
    unfolding invokeAgent_def Let_def case_prod_unfold
    apply (simp only: assms False option.case if_False if_True simp_thms)
    apply (intro exI)
    apply (rule refl)
    done
qed

lemma invokeAgent_local_exit_code:
  assumes "invoke_mode agent \<noteq> Some Remote" and "w_setup w = None" and "n \<noteq> 0"
    and "\<forall>req. w_run w req = pre @ CloseEvent (Some n) # post"
    and "list_all is_data pre"
  shows "fst (invokeAgent w agent agentId message workspacePath shouldReset)
              = Rejected (JsError (if js_trim (stderr_of pre) = []
                                   then ''Command exited with code '' @ show_int n
                                   else js_trim (stderr_of pre)))"
proof -
  obtain cmd args cwd f where
    inv: "invokeAgent w agent agentId message workspacePath shouldReset
             = (map_promise f (fst (runCommand w cmd args cwd (Some LOCAL_TIMEOUT_MS))),
                snd (runCommand w cmd args cwd (Some LOCAL_TIMEOUT_MS)))"
    using invokeAgent_local_runCommand[OF assms(1,2)] by blast
  have "w_run w (runCommand_req w cmd args cwd) = pre @ CloseEvent (Some n) # post"
    using assms(4) by simp
  from runCommand_close[OF this assms(5), of "Some LOCAL_TIMEOUT_MS"] assms(3)
  show ?thesis by (simp add: inv show_code_def)
qed

lemma invokeAgent_remote_missing:
  assumes "invoke_mode agent = Some Remote"
    and "js_missing (remote_host agent) \<or> js_missing (remote_user agent)
          \<or> js_missing (remote_project_root agent)"
  shows "snd (invokeAgent w agent agentId message workspacePath shouldReset) = []"
    and "\<exists>e. fst (invokeAgent w agent agentId message workspacePath shouldReset) = Rejected e"
    and "w_setup w = None \<Longrightarrow>
         fst (invokeAgent w agent agentId message workspacePath shouldReset)
           = Rejected (JsError (''Agent '' @ agentId @
               '' has invoke_mode=remote but missing remote_host/remote_user/remote_project_root''))"
  using assms by (auto simp: invokeAgent_def Let_def split: option.splits)

lemma runCommandRemote_spawned:
  "snd (runCommandRemote w host user rroot claudeArgs prompt)
     = [\<lparr>sp_command = ''ssh'', sp_args = remote_write_args host user (remote_tmpFile (w_now w)),
         sp_cwd = None, sp_stdin = Some prompt\<rparr>]
   \<or> snd (runCommandRemote w host user rroot claudeArgs prompt)
     = [\<lparr>sp_command = ''ssh'', sp_args = remote_write_args host user (remote_tmpFile (w_now w)),
         sp_cwd = None, sp_stdin = Some prompt\<rparr>,
        \<lparr>sp_command = ''ssh'',
         sp_args = remote_exec_args host user rroot claudeArgs (remote_tmpFile (w_now w)),
         sp_cwd = None, sp_stdin = None\<rparr>]"
  by (simp add: runCommandRemote_def Let_def split: promise.splits)

lemma prefix_comparable_pair:
  assumes "xs = [a] \<or> xs = [a, b]" and "ys = [a] \<or> ys = [a, b]"
  shows "prefix xs ys \<or> prefix ys xs"
  using assms by auto

lemma runCommandRemote_args:
  "map sp_args (snd (runCommandRemote w host user rroot claudeArgs prompt))
     = [remote_write_args host user (remote_tmpFile (w_now w))]
   \<or> map sp_args (snd (runCommandRemote w host user rroot claudeArgs prompt))
     = [remote_write_args host user (remote_tmpFile (w_now w)),
        remote_exec_args host user rroot claudeArgs (remote_tmpFile (w_now w))]"
  using runCommandRemote_spawned[of w host user rroot claudeArgs prompt] by auto

lemma runCommandRemote_stdin:
  "map sp_stdin (snd (runCommandRemote w host user rroot claudeArgs prompt)) = [Some prompt]
   \<or> map sp_stdin (snd (runCommandRemote w host user rroot claudeArgs prompt)) = [Some prompt, None]"
  using runCommandRemote_spawned[of w host user rroot claudeArgs prompt] by auto

lemma invokeAgent_remote_spawned:
  assumes "invoke_mode agent = Some Remote"
  shows "snd (invokeAgent w agent agentId message workspacePath shouldReset) = []
     \<or> snd (invokeAgent w agent agentId message workspacePath shouldReset)
         = snd (runCommandRemote w (js_string_of (remote_host agent)) (js_string_of (remote_user agent))
                  (js_string_of (remote_project_root agent)) (claude_args w agent shouldReset) message)"
  using assms by (auto simp: invokeAgent_def Let_def case_prod_unfold split: option.splits)

lemma js_get_None_iff: "js_get v k = None \<longleftrightarrow> v = JUndefined \<or> v = JNull"
  by (cases v) (simp_all split: option.splits)

lemma codex_line_eq:
  "codex_line parse response line =
     (case parse line of
        None \<Rightarrow> response
      | Some json \<Rightarrow> if is_final_answer json then record_text json else response)"
  by (auto simp: codex_line_def is_final_answer_def record_text_def js_get_None_iff
        split: option.splits)

lemma last_final_answer_Cons:
  "last_final_answer (r # rs) =
     (case last_final_answer rs of None \<Rightarrow> (if is_final_answer r then Some r else None) | Some l \<Rightarrow> Some l)"
  by (auto simp: last_final_answer_def split: list.splits)

lemma codex_lines_fold:
  "foldl (codex_line parse) response lines =
     (case last_final_answer (List.map_filter parse lines) of
        None \<Rightarrow> response
      | Some r \<Rightarrow> record_text r)"
proof (induction lines arbitrary: response)
  case Nil
  then show ?case by (simp add: last_final_answer_def List.map_filter_def)
next
  case (Cons l ls)
  have "foldl (codex_line parse) response (l # ls)
          = (case last_final_answer (List.map_filter parse ls) of
               None \<Rightarrow> codex_line parse response l
             | Some r \<Rightarrow> record_text r)"
    by (simp only: foldl_Cons Cons.IH)
  also have "\<dots> = (case last_final_answer (List.map_filter parse (l # ls)) of
                     None \<Rightarrow> response
                   | Some r \<Rightarrow> record_text r)"
    by (simp add: codex_line_eq last_final_answer_Cons split: option.splits)
  finally show ?case .
qed

lemma codex_response_eq:
  "codex_response parse codexOutput =
     (case last_final_answer (parsed_records parse codexOutput) of
        None \<Rightarrow> JStr codex_fallback
      | Some r \<Rightarrow> if js_truthy (record_text r) then record_text r else JStr codex_fallback)"
  by (simp add: codex_response_def codex_lines_fold parsed_records_def Let_def split: option.splits)

lemma codex_line_unparsable: "parse line = None \<Longrightarrow> codex_line parse response line = response"
  by (simp add: codex_line_def)


text \<open>
  Claim C6. When the first event of the child that settles the promise is \<open>close\<close> with
  exit code \<open>n\<close> (only data events come before it): for \<open>n \<noteq> 0\<close>, \<open>runCommand\<close> rejects
  with an \<open>Error\<close> whose message is the trimmed stderr, or \<open>Command exited with code n\<close>
  when the trimmed stderr is empty; for \<open>n = 0\<close> it resolves with the stdout captured;
  one child is spawned. A local \<open>invokeAgent\<close>, of either provider, rejects with the same
  error when its child exits with a code other than 0.
\<close>

theorem runCommand_exit_code:
  "(w_run w (runCommand_req w command args cwd) = pre @ CloseEvent (Some n) # post
      \<and> list_all is_data pre \<longrightarrow>
        (n \<noteq> 0 \<longrightarrow>
            fst (runCommand w command args cwd timeoutMs)
              = Rejected (JsError (if js_trim (stderr_of pre) = []
                                   then ''Command exited with code '' @ show_int n
                                   else js_trim (stderr_of pre))))
       \<and> (n = 0 \<longrightarrow> fst (runCommand w command args cwd timeoutMs) = Resolved (stdout_of pre))
       \<and> snd (runCommand w command args cwd timeoutMs) = [runCommand_req w command args cwd])
   \<and> (invoke_mode agent \<noteq> Some Remote \<and> w_setup w = None \<and> n \<noteq> 0
      \<and> (\<forall>req. w_run w req = pre @ CloseEvent (Some n) # post) \<and> list_all is_data pre \<longrightarrow>
        fst (invokeAgent w agent agentId message workspacePath shouldReset)
          = Rejected (JsError (if js_trim (stderr_of pre) = []
                               then ''Command exited with code '' @ show_int n
                               else js_trim (stderr_of pre))))"
proof (intro conjI impI)
  assume a: "w_run w (runCommand_req w command args cwd) = pre @ CloseEvent (Some n) # post
      \<and> list_all is_data pre"
  then have c: "runCommand w command args cwd timeoutMs =
     ((if Some n = Some 0 then Resolved (stdout_of pre)
       else Rejected (JsError (if js_trim (stderr_of pre) = []
                               then ''Command exited with code '' @ show_code (Some n)
                               else js_trim (stderr_of pre)))),
      [runCommand_req w command args cwd])"
    using runCommand_close by blast
  show "snd (runCommand w command args cwd timeoutMs) = [runCommand_req w command args cwd]"
    by (simp add: c)
  { assume "n \<noteq> 0"
    then show "fst (runCommand w command args cwd timeoutMs)
              = Rejected (JsError (if js_trim (stderr_of pre) = []
                                   then ''Command exited with code '' @ show_int n
                                   else js_trim (stderr_of pre)))"
      by (simp add: c show_code_def) }
  { assume "n = 0"
    then show "fst (runCommand w command args cwd timeoutMs) = Resolved (stdout_of pre)"
      by (simp add: c) }
next
  assume "invoke_mode agent \<noteq> Some Remote \<and> w_setup w = None \<and> n \<noteq> 0
      \<and> (\<forall>req. w_run w req = pre @ CloseEvent (Some n) # post) \<and> list_all is_data pre"
  then show "fst (invokeAgent w agent agentId message workspacePath shouldReset)
          = Rejected (JsError (if js_trim (stderr_of pre) = []
                               then ''Command exited with code '' @ show_int n
                               else js_trim (stderr_of pre)))"
    using invokeAgent_local_exit_code by blast
qed


theorem runCommand_exit_code_witness:
  "fst (runCommand (demo_world (\<lambda>r. [StdoutData ''working'', StderrData '' boom'', StderrData [CHR 0x0A], CloseEvent (Some 2)]) (\<lambda>l. None))
          ''claude'' [''-p'', ''hi''] None (Some LOCAL_TIMEOUT_MS)) = Rejected (JsError ''boom'')
   \<and> fst (runCommand (demo_world (\<lambda>r. [CloseEvent (Some 3)]) (\<lambda>l. None))
          ''claude'' [''-p'', ''hi''] None (Some LOCAL_TIMEOUT_MS)) = Rejected (JsError ''Command exited with code 3'')
   \<and> fst (runCommand (demo_world (\<lambda>r. [StdoutData ''all '', StdoutData ''good'', CloseEvent (Some 0)]) (\<lambda>l. None))
          ''claude'' [''-p'', ''hi''] None (Some LOCAL_TIMEOUT_MS)) = Resolved ''all good''
   \<and> fst (invokeAgent (demo_world (\<lambda>r. [CloseEvent (Some 3)]) (\<lambda>l. None))
          (demo_agent ''anthropic'' ''sonnet'' None None) ''strategist'' ''hi'' ''/ws'' False)
        = Rejected (JsError ''Command exited with code 3'')"
proof -
  let ?w1 = "demo_world (\<lambda>r. [StdoutData ''working'', StderrData '' boom'', StderrData [CHR 0x0A], CloseEvent (Some 2)]) (\<lambda>l. None)"
  let ?w2 = "demo_world (\<lambda>r. [CloseEvent (Some 3)]) (\<lambda>l. None)"
  let ?w3 = "demo_world (\<lambda>r. [StdoutData ''all '', StdoutData ''good'', CloseEvent (Some 0)]) (\<lambda>l. None)"
  let ?ag = "demo_agent ''anthropic'' ''sonnet'' None None"
  have r1: "w_run ?w1 (runCommand_req ?w1 ''claude'' [''-p'', ''hi''] None)
              = [StdoutData ''working'', StderrData '' boom'', StderrData [CHR 0x0A]] @ CloseEvent (Some 2) # []"
    by (simp add: demo_world_def)
  have d1: "list_all is_data [StdoutData ''working'', StderrData '' boom'', StderrData [CHR 0x0A]]"
    by (simp add: is_data_def)
  have r2: "\<forall>req. w_run ?w2 req = [] @ CloseEvent (Some 3) # []"
    by (simp add: demo_world_def)
  have s2: "invoke_mode ?ag \<noteq> Some Remote \<and> w_setup ?w2 = None"
    by (simp add: demo_world_def demo_agent_def)
  have r3: "w_run ?w3 (runCommand_req ?w3 ''claude'' [''-p'', ''hi''] None)
              = [StdoutData ''all '', StdoutData ''good''] @ CloseEvent (Some 0) # []"
    by (simp add: demo_world_def)
  have d3: "list_all is_data [StdoutData ''all '', StdoutData ''good'']"
    by (simp add: is_data_def)
  show ?thesis
    using r1 d1 r2 s2 r3 d3
      runCommand_exit_code[where w = ?w1 and command = "''claude''" and args = "[''-p'', ''hi'']"
        and cwd = None and n = 2 and post = "[]" and timeoutMs = "Some LOCAL_TIMEOUT_MS"
        and pre = "[StdoutData ''working'', StderrData '' boom'', StderrData [CHR 0x0A]]"]
      runCommand_exit_code[where w = ?w2 and command = "''claude''" and args = "[''-p'', ''hi'']"
        and cwd = None and n = 3 and post = "[]" and timeoutMs = "Some LOCAL_TIMEOUT_MS"
        and pre = "[]" and agent = ?ag and agentId = "''strategist''" and message = "''hi''"
        and workspacePath = "''/ws''" and shouldReset = False]
      runCommand_exit_code[where w = ?w3 and command = "''claude''" and args = "[''-p'', ''hi'']"
        and cwd = None and n = 0 and post = "[]" and timeoutMs = "Some LOCAL_TIMEOUT_MS"
        and pre = "[StdoutData ''all '', StdoutData ''good'']"]
    by (simp add: stderr_of_def stdout_of_def js_trim_def js_whitespace_def show_int_def digit_char_def)
qed

text \<open>
  Claim C7. For an agent with \<open>invoke_mode\<close> remote of which \<open>remote_host\<close>, \<open>remote_user\<close>
  or \<open>remote_project_root\<close> is missing (absent or empty), \<open>invokeAgent\<close> spawns no child
  at all and its promise is rejected: no local invocation and no other agent stands in.
  When the directory set-up before the check does not itself fail, the rejection is the
  \<open>Error\<close> naming the agent and the three fields.
\<close>

theorem invokeAgent_remote_config_error:
  assumes "invoke_mode agent = Some Remote"
    and "js_missing (remote_host agent) \<or> js_missing (remote_user agent)
          \<or> js_missing (remote_project_root agent)"
  shows "snd (invokeAgent w agent agentId message workspacePath shouldReset) = []
       \<and> (\<exists>e. fst (invokeAgent w agent agentId message workspacePath shouldReset) = Rejected e)
       \<and> (w_setup w = None \<longrightarrow>
            fst (invokeAgent w agent agentId message workspacePath shouldReset)
              = Rejected (JsError (''Agent '' @ agentId @
                  '' has invoke_mode=remote but missing remote_host/remote_user/remote_project_root'')))"
  using invokeAgent_remote_missing[OF assms] by blast

theorem invokeAgent_remote_config_error_witness:
  "invokeAgent (demo_world (\<lambda>r. [StdoutData ''ok'', CloseEvent (Some 0)]) (\<lambda>l. None))
      (demo_agent ''anthropic'' ''sonnet'' (Some Remote) None) ''researcher'' ''run the backtest'' ''/ws'' False
    = (Rejected (JsError
         ''Agent researcher has invoke_mode=remote but missing remote_host/remote_user/remote_project_root''),
       [])"
proof -
  let ?w = "demo_world (\<lambda>r. [StdoutData ''ok'', CloseEvent (Some 0)]) (\<lambda>l. None)"
  let ?ag = "demo_agent ''anthropic'' ''sonnet'' (Some Remote) None"
  have m: "invoke_mode ?ag = Some Remote" by (simp add: demo_agent_def)
  have h: "js_missing (remote_host ?ag) \<or> js_missing (remote_user ?ag)
            \<or> js_missing (remote_project_root ?ag)"
    by (simp add: demo_agent_def js_missing_def)
  have s: "w_setup ?w = None" by (simp add: demo_world_def)
  show ?thesis
    using invokeAgent_remote_config_error[OF m h, of ?w "''researcher''" "''run the backtest''" "''/ws''" False] s
    by (simp add: prod_eq_iff)
qed


text \<open>
  Claim C8. The argument strings of the ssh children of \<open>runCommandRemote\<close> are those of
  \<open>remote_write_args\<close> and \<open>remote_exec_args\<close>, built from the host, the user, the project
  root, the Claude arguments and the clock only; the prompt is what is written to the
  stdin of the first child, and the second has no stdin. Two runs that differ in the
  prompt alone spawn children with the same argument strings, as far as both get, and a
  prompt occurs in the argument strings only if it occurs in what is built without it.
  For a remote \<open>invokeAgent\<close> the same holds of the message: the Claude arguments are
  built from the model and the reset flag.
\<close>

theorem remote_prompt_only_on_stdin:
  "(map sp_args (snd (runCommandRemote w host user rroot claudeArgs prompt))
       = [remote_write_args host user (remote_tmpFile (w_now w))]
     \<or> map sp_args (snd (runCommandRemote w host user rroot claudeArgs prompt))
       = [remote_write_args host user (remote_tmpFile (w_now w)),
          remote_exec_args host user rroot claudeArgs (remote_tmpFile (w_now w))])
   \<and> (map sp_stdin (snd (runCommandRemote w host user rroot claudeArgs prompt)) = [Some prompt]
     \<or> map sp_stdin (snd (runCommandRemote w host user rroot claudeArgs prompt)) = [Some prompt, None])
   \<and> (prefix (map sp_args (snd (runCommandRemote w host user rroot claudeArgs prompt)))
               (map sp_args (snd (runCommandRemote w host user rroot claudeArgs prompt')))
     \<or> prefix (map sp_args (snd (runCommandRemote w host user rroot claudeArgs prompt')))
               (map sp_args (snd (runCommandRemote w host user rroot claudeArgs prompt))))
   \<and> (\<not> list_ex (str_includes prompt)
            (remote_write_args host user (remote_tmpFile (w_now w))
             @ remote_exec_args host user rroot claudeArgs (remote_tmpFile (w_now w))) \<longrightarrow>
        \<not> list_ex (str_includes prompt)
            (concat (map sp_args (snd (runCommandRemote w host user rroot claudeArgs prompt)))))
   \<and> (invoke_mode agent = Some Remote \<longrightarrow>
        prefix (map sp_args (snd (invokeAgent w agent agentId message workspacePath shouldReset)))
          [remote_write_args (js_string_of (remote_host agent)) (js_string_of (remote_user agent))
             (remote_tmpFile (w_now w)),
           remote_exec_args (js_string_of (remote_host agent)) (js_string_of (remote_user agent))
             (js_string_of (remote_project_root agent)) (claude_args w agent shouldReset)
             (remote_tmpFile (w_now w))]
      \<and> prefix (map sp_stdin (snd (invokeAgent w agent agentId message workspacePath shouldReset)))
          [Some message, None])"
proof (intro conjI impI)
  show "map sp_args (snd (runCommandRemote w host user rroot claudeArgs prompt))
       = [remote_write_args host user (remote_tmpFile (w_now w))]
     \<or> map sp_args (snd (runCommandRemote w host user rroot claudeArgs prompt))
       = [remote_write_args host user (remote_tmpFile (w_now w)),
          remote_exec_args host user rroot claudeArgs (remote_tmpFile (w_now w))]"
    by (rule runCommandRemote_args)
next
  show "map sp_stdin (snd (runCommandRemote w host user rroot claudeArgs prompt)) = [Some prompt]
     \<or> map sp_stdin (snd (runCommandRemote w host user rroot claudeArgs prompt)) = [Some prompt, None]"
    by (rule runCommandRemote_stdin)
next
  show "prefix (map sp_args (snd (runCommandRemote w host user rroot claudeArgs prompt)))
               (map sp_args (snd (runCommandRemote w host user rroot claudeArgs prompt')))
     \<or> prefix (map sp_args (snd (runCommandRemote w host user rroot claudeArgs prompt')))
               (map sp_args (snd (runCommandRemote w host user rroot claudeArgs prompt)))"
    by (rule prefix_comparable_pair[OF runCommandRemote_args runCommandRemote_args])
next
  assume "\<not> list_ex (str_includes prompt)
            (remote_write_args host user (remote_tmpFile (w_now w))
             @ remote_exec_args host user rroot claudeArgs (remote_tmpFile (w_now w)))"
  then show "\<not> list_ex (str_includes prompt)
            (concat (map sp_args (snd (runCommandRemote w host user rroot claudeArgs prompt))))"
    using runCommandRemote_args[of w host user rroot claudeArgs prompt] by auto
next
  assume r: "invoke_mode agent = Some Remote"
  let ?sp = "snd (invokeAgent w agent agentId message workspacePath shouldReset)"
  let ?rs = "snd (runCommandRemote w (js_string_of (remote_host agent)) (js_string_of (remote_user agent))
                  (js_string_of (remote_project_root agent)) (claude_args w agent shouldReset) message)"
  have sp: "?sp = [] \<or> ?sp = ?rs"
    by (rule invokeAgent_remote_spawned[OF r])
  show "prefix (map sp_args ?sp)
          [remote_write_args (js_string_of (remote_host agent)) (js_string_of (remote_user agent))
             (remote_tmpFile (w_now w)),
           remote_exec_args (js_string_of (remote_host agent)) (js_string_of (remote_user agent))
             (js_string_of (remote_project_root agent)) (claude_args w agent shouldReset)
             (remote_tmpFile (w_now w))]"
    using sp runCommandRemote_args[of w "js_string_of (remote_host agent)" "js_string_of (remote_user agent)"
        "js_string_of (remote_project_root agent)" "claude_args w agent shouldReset" message]
    by auto
  show "prefix (map sp_stdin ?sp) [Some message, None]"
    using sp runCommandRemote_stdin[of w "js_string_of (remote_host agent)" "js_string_of (remote_user agent)"
        "js_string_of (remote_project_root agent)" "claude_args w agent shouldReset" message]
    by auto
qed




theorem remote_prompt_only_on_stdin_witness:
  \<open>map sp_args (snd (invokeAgent (demo_world (\<lambda>r. [StdoutData ''ok'', CloseEvent (Some 0)]) (\<lambda>l. None))
      (demo_agent ''anthropic'' ''sonnet'' (Some Remote) (Some ''ct110'')) ''researcher''
      ''"; rm -rf / #'' ''/ws'' False))
    = [[''strategist@ct110'', ''cat > /tmp/tinyclaw-prompt-1700000000000.txt''],
       [''strategist@ct110'',
        ''cd /home/strategist/trading-signal-ai && source /etc/trading-signal-ai.env 2>/dev/null || true && PROMPT=$(cat /tmp/tinyclaw-prompt-1700000000000.txt) && rm -f /tmp/tinyclaw-prompt-1700000000000.txt && claude --dangerously-skip-permissions --model claude-sonnet-4-5 -c -p "$PROMPT"'']]
   \<and> map sp_stdin (snd (invokeAgent (demo_world (\<lambda>r. [StdoutData ''ok'', CloseEvent (Some 0)]) (\<lambda>l. None))
      (demo_agent ''anthropic'' ''sonnet'' (Some Remote) (Some ''ct110'')) ''researcher''
      ''"; rm -rf / #'' ''/ws'' False))
    = [Some ''"; rm -rf / #'', None]
   \<and> \<not> list_ex (str_includes ''"; rm -rf / #'')
        (concat (map sp_args (snd (invokeAgent
           (demo_world (\<lambda>r. [StdoutData ''ok'', CloseEvent (Some 0)]) (\<lambda>l. None))
           (demo_agent ''anthropic'' ''sonnet'' (Some Remote) (Some ''ct110'')) ''researcher''
           ''"; rm -rf / #'' ''/ws'' False))))\<close>
proof -
  let ?w = "demo_world (\<lambda>r. [StdoutData ''ok'', CloseEvent (Some 0)]) (\<lambda>l. None)"
  let ?ag = "demo_agent ''anthropic'' ''sonnet'' (Some Remote) (Some ''ct110'')"
  let ?sp = \<open>snd (invokeAgent ?w ?ag ''researcher'' ''"; rm -rf / #'' ''/ws'' False)\<close>
  have m: "invoke_mode ?ag = Some Remote" by (simp add: demo_agent_def)
  have len: "length ?sp = 2"
    by (simp add: invokeAgent_def demo_world_def demo_agent_def js_missing_def runCommandRemote_def
        Let_def settle_def)
  have tmp: "remote_tmpFile (w_now ?w) = ''/tmp/tinyclaw-prompt-1700000000000.txt''"
    by (simp add: remote_tmpFile_def show_int_def digit_char_def demo_world_def)
  have args: \<open>remote_exec_args (js_string_of (remote_host ?ag)) (js_string_of (remote_user ?ag))
             (js_string_of (remote_project_root ?ag)) (claude_args ?w ?ag False)
             ''/tmp/tinyclaw-prompt-1700000000000.txt''
      = [''strategist@ct110'',
        ''cd /home/strategist/trading-signal-ai && source /etc/trading-signal-ai.env 2>/dev/null || true && PROMPT=$(cat /tmp/tinyclaw-prompt-1700000000000.txt) && rm -f /tmp/tinyclaw-prompt-1700000000000.txt && claude --dangerously-skip-permissions --model claude-sonnet-4-5 -c -p "$PROMPT"'']\<close>
    by (simp add: demo_world_def demo_agent_def js_string_of_def remote_exec_args_def remoteCmd_def
        claude_args_def lookup_or_self_def CLAUDE_MODEL_IDS_def)
  have wargs: "remote_write_args (js_string_of (remote_host ?ag)) (js_string_of (remote_user ?ag))
             ''/tmp/tinyclaw-prompt-1700000000000.txt''
      = [''strategist@ct110'', ''cat > /tmp/tinyclaw-prompt-1700000000000.txt'']"
    by (simp add: demo_agent_def js_string_of_def remote_write_args_def)
  have pl: "\<And>xs ys :: 'b list. prefix xs ys \<Longrightarrow> length xs = length ys \<Longrightarrow> xs = ys"
    by (auto simp: prefix_def)
  from remote_prompt_only_on_stdin[where agent = ?ag and w = ?w and agentId = "''researcher''"
        and workspacePath = "''/ws''" and shouldReset = False and message = \<open>''"; rm -rf / #''\<close>] m
  have p1: "prefix (map sp_args ?sp)
          [remote_write_args (js_string_of (remote_host ?ag)) (js_string_of (remote_user ?ag))
             (remote_tmpFile (w_now ?w)),
           remote_exec_args (js_string_of (remote_host ?ag)) (js_string_of (remote_user ?ag))
             (js_string_of (remote_project_root ?ag)) (claude_args ?w ?ag False)
             (remote_tmpFile (w_now ?w))]"
    and p2: \<open>prefix (map sp_stdin ?sp) [Some ''"; rm -rf / #'', None]\<close>
    by blast+
  have "map sp_args ?sp = [remote_write_args (js_string_of (remote_host ?ag)) (js_string_of (remote_user ?ag))
             (remote_tmpFile (w_now ?w)),
           remote_exec_args (js_string_of (remote_host ?ag)) (js_string_of (remote_user ?ag))
             (js_string_of (remote_project_root ?ag)) (claude_args ?w ?ag False)
             (remote_tmpFile (w_now ?w))]"
    using pl[OF p1] len by simp
  then have A: \<open>map sp_args ?sp
    = [[''strategist@ct110'', ''cat > /tmp/tinyclaw-prompt-1700000000000.txt''],
       [''strategist@ct110'',
        ''cd /home/strategist/trading-signal-ai && source /etc/trading-signal-ai.env 2>/dev/null || true && PROMPT=$(cat /tmp/tinyclaw-prompt-1700000000000.txt) && rm -f /tmp/tinyclaw-prompt-1700000000000.txt && claude --dangerously-skip-permissions --model claude-sonnet-4-5 -c -p "$PROMPT"'']]\<close>
    by (simp only: tmp args wargs)
  have B: \<open>map sp_stdin ?sp = [Some ''"; rm -rf / #'', None]\<close>
    using pl[OF p2] len by simp
  have C: \<open>\<not> list_ex (str_includes ''"; rm -rf / #'') (concat (map sp_args ?sp))\<close>
    by (simp only: A) simp
  from A B C show ?thesis by (simp only: simp_thms)
qed

lemma codex_response_amended:
  "codex_response parse out =
     (if js_truthy (spec_codex_response parse out) then spec_codex_response parse out
      else JStr codex_fallback)"
  by (simp add: codex_response_eq spec_codex_response_def codex_fallback_def split: option.splits)

lemma invokeAgent_local_openai:
  assumes "provider agent = ''openai''" and "invoke_mode agent \<noteq> Some Remote" and "w_setup w = None"
  shows "\<exists>cwd. invokeAgent w agent agentId message workspacePath shouldReset =
           (map_promise (codex_response (w_JSON_parse w))
              (fst (runCommand w ''codex'' (codex_args w agent shouldReset message) cwd
                      (Some LOCAL_TIMEOUT_MS))),
            snd (runCommand w ''codex'' (codex_args w agent shouldReset message) cwd
                      (Some LOCAL_TIMEOUT_MS)))"
proof -
  have p: "js_or (provider agent) ''anthropic'' = ''openai''"
    by (simp add: assms(1) js_or_def)
  show ?thesis
    unfolding invokeAgent_def Let_def case_prod_unfold
    apply (simp only: assms(2,3) p option.case if_False if_True simp_thms)
    apply (intro exI)
    apply (rule refl)
    done
qed

text \<open>
  Claim C5, amended. For an agent of provider \<open>openai\<close> that is not invoked remotely,
  whose Codex child exits with code 0: \<open>invokeAgent\<close> resolves with the text of the last
  parsed record of type \<open>item.completed\<close> whose item has type \<open>agent_message\<close> when that
  text is truthy (for a string: not empty), and with the fixed fallback string when
  there is no such record or its text is empty or missing. A line that does not parse
  leaves the response as it was.
\<close>

theorem invokeAgent_codex_response:
  "(provider agent = ''openai'' \<and> invoke_mode agent \<noteq> Some Remote \<and> w_setup w = None
      \<and> (\<forall>req. w_run w req = pre @ CloseEvent (Some 0) # post) \<and> list_all is_data pre \<longrightarrow>
        fst (invokeAgent w agent agentId message workspacePath shouldReset)
          = Resolved (if js_truthy (spec_codex_response (w_JSON_parse w) (stdout_of pre))
                      then spec_codex_response (w_JSON_parse w) (stdout_of pre)
                      else JStr codex_fallback))
   \<and> (parse line = None \<longrightarrow> codex_line parse response line = response)
   \<and> codex_response parse out
        = (if js_truthy (spec_codex_response parse out) then spec_codex_response parse out
           else JStr codex_fallback)"
proof (intro conjI impI)
  assume a: "provider agent = ''openai'' \<and> invoke_mode agent \<noteq> Some Remote \<and> w_setup w = None
      \<and> (\<forall>req. w_run w req = pre @ CloseEvent (Some 0) # post) \<and> list_all is_data pre"
  then obtain cwd where
    inv: "invokeAgent w agent agentId message workspacePath shouldReset =
           (map_promise (codex_response (w_JSON_parse w))
              (fst (runCommand w ''codex'' (codex_args w agent shouldReset message) cwd
                      (Some LOCAL_TIMEOUT_MS))),
            snd (runCommand w ''codex'' (codex_args w agent shouldReset message) cwd
                      (Some LOCAL_TIMEOUT_MS)))"
    using invokeAgent_local_openai by blast
  have "w_run w (runCommand_req w ''codex'' (codex_args w agent shouldReset message) cwd)
          = pre @ CloseEvent (Some 0) # post"
    using a by simp
  moreover have "list_all is_data pre" using a by simp
  ultimately have "fst (runCommand w ''codex'' (codex_args w agent shouldReset message) cwd
                      (Some LOCAL_TIMEOUT_MS)) = Resolved (stdout_of pre)"
    by (simp add: runCommand_close)
  then show "fst (invokeAgent w agent agentId message workspacePath shouldReset)
          = Resolved (if js_truthy (spec_codex_response (w_JSON_parse w) (stdout_of pre))
                      then spec_codex_response (w_JSON_parse w) (stdout_of pre)
                      else JStr codex_fallback)"
    by (simp add: inv codex_response_amended)
next
  assume "parse line = None"
  then show "codex_line parse response line = response"
    by (rule codex_line_unparsable)
next
  show "codex_response parse out
        = (if js_truthy (spec_codex_response parse out) then spec_codex_response parse out
           else JStr codex_fallback)"
    by (rule codex_response_amended)
qed

theorem invokeAgent_codex_response_witness:
  "fst (invokeAgent
          (demo_world (\<lambda>r. [StdoutData (started_line @ [CHR 0x0A] @ ''thinking...'' @ [CHR 0x0A]),
                             StdoutData (answer_line @ [CHR 0x0A]), CloseEvent (Some 0)]) answer_parse)
          (demo_agent ''openai'' ''gpt-5.2'' None None) ''coder'' ''regime?'' ''/ws'' False)
     = Resolved (JStr ''BTC is neutral'')"
proof -
  let ?pre = "[StdoutData (started_line @ [CHR 0x0A] @ ''thinking...'' @ [CHR 0x0A]),
               StdoutData (answer_line @ [CHR 0x0A])]"
  let ?w = "demo_world (\<lambda>r. [StdoutData (started_line @ [CHR 0x0A] @ ''thinking...'' @ [CHR 0x0A]),
                             StdoutData (answer_line @ [CHR 0x0A]), CloseEvent (Some 0)]) answer_parse"
  let ?ag = "demo_agent ''openai'' ''gpt-5.2'' None None"
  have h: "provider ?ag = ''openai'' \<and> invoke_mode ?ag \<noteq> Some Remote \<and> w_setup ?w = None
      \<and> (\<forall>req. w_run ?w req = ?pre @ CloseEvent (Some 0) # []) \<and> list_all is_data ?pre"
    by (simp add: demo_agent_def demo_world_def is_data_def)
  have sp: "spec_codex_response (w_JSON_parse ?w) (stdout_of ?pre) = JStr ''BTC is neutral''"
    by (simp add: spec_codex_response_def parsed_records_def last_final_answer_def is_final_answer_def
      record_text_def answer_parse_def answer_line_def started_line_def js_trim_def js_whitespace_def
      List.map_filter_def stdout_of_def demo_world_def)
  from invokeAgent_codex_response[where agent = ?ag and w = ?w and pre = ?pre and post = "[]"
      and agentId = "''coder''" and message = "''regime?''" and workspacePath = "''/ws''"
      and shouldReset = False] h
  have "fst (invokeAgent ?w ?ag ''coder'' ''regime?'' ''/ws'' False)
          = Resolved (if js_truthy (spec_codex_response (w_JSON_parse ?w) (stdout_of ?pre))
                      then spec_codex_response (w_JSON_parse ?w) (stdout_of ?pre)
                      else JStr codex_fallback)"
    by blast
  then show ?thesis by (simp only: sp js_truthy.simps) simp
qed

text \<open>
  As the claim is worded the answer is the text of the last final record whatever it is.
  With an empty text the code returns the fallback instead; and an agent of provider
  \<open>openai\<close> that is invoked remotely has its output returned as it is, not parsed.
\<close>

theorem invokeAgent_codex_response_counterexample:
  "fst (invokeAgent
          (demo_world (\<lambda>r. [StdoutData (empty_answer_line @ [CHR 0x0A]), CloseEvent (Some 0)])
             empty_answer_parse)
          (demo_agent ''openai'' ''gpt-5.2'' None None) ''coder'' ''regime?'' ''/ws'' False)
     = Resolved (JStr codex_fallback)
   \<and> spec_codex_response empty_answer_parse (empty_answer_line @ [CHR 0x0A]) = JStr []
   \<and> JStr codex_fallback \<noteq> JStr []
   \<and> fst (invokeAgent
          (demo_world (\<lambda>r. [StdoutData (answer_line @ [CHR 0x0A]), CloseEvent (Some 0)]) answer_parse)
          (demo_agent ''openai'' ''gpt-5.2'' (Some Remote) (Some ''ct110'')) ''coder'' ''regime?'' ''/ws'' False)
     = Resolved (JStr answer_line)
   \<and> spec_codex_response answer_parse (answer_line @ [CHR 0x0A]) = JStr ''BTC is neutral''
   \<and> JStr answer_line \<noteq> JStr ''BTC is neutral''"
proof (intro conjI)
  show "fst (invokeAgent
          (demo_world (\<lambda>r. [StdoutData (empty_answer_line @ [CHR 0x0A]), CloseEvent (Some 0)])
             empty_answer_parse)
          (demo_agent ''openai'' ''gpt-5.2'' None None) ''coder'' ''regime?'' ''/ws'' False)
     = Resolved (JStr codex_fallback)"
    by (simp add: invokeAgent_def demo_world_def demo_agent_def js_or_def runCommand_def
        runCommand_init_def runCommand_req_def LOCAL_TIMEOUT_MS_def settle_def Let_def
        codex_response_def codex_line_def empty_answer_parse_def empty_answer_line_def
        js_trim_def js_whitespace_def)
  show "spec_codex_response empty_answer_parse (empty_answer_line @ [CHR 0x0A]) = JStr []"
    by (simp add: spec_codex_response_def parsed_records_def last_final_answer_def is_final_answer_def
      record_text_def empty_answer_parse_def empty_answer_line_def js_trim_def js_whitespace_def
      List.map_filter_def)
  show "JStr codex_fallback \<noteq> JStr []"
    by (simp add: codex_fallback_def)
  show "fst (invokeAgent
          (demo_world (\<lambda>r. [StdoutData (answer_line @ [CHR 0x0A]), CloseEvent (Some 0)]) answer_parse)
          (demo_agent ''openai'' ''gpt-5.2'' (Some Remote) (Some ''ct110'')) ''coder'' ''regime?'' ''/ws'' False)
     = Resolved (JStr answer_line)"
    by (simp add: invokeAgent_def demo_world_def demo_agent_def js_missing_def js_string_of_def
        runCommandRemote_def Let_def settle_def remote_init_def answer_line_def
        js_trim_def js_whitespace_def)
  show "spec_codex_response answer_parse (answer_line @ [CHR 0x0A]) = JStr ''BTC is neutral''"
    by (simp add: spec_codex_response_def parsed_records_def last_final_answer_def is_final_answer_def
      record_text_def answer_parse_def answer_line_def started_line_def js_trim_def js_whitespace_def
      List.map_filter_def)
  show "JStr answer_line \<noteq> JStr ''BTC is neutral''"
    by (simp add: answer_line_def)
qed

section \<open>Notification sink: properties\<close>

lemma sendDiscord_effects:
  "snd (sendDiscord env sent m) = sent
   \<or> snd (sendDiscord env sent m)
       = sent @ [Posted \<lparr>post_url = WEBHOOK_URL env, post_content = take 2000 m\<rparr>]"
  by (simp add: sendDiscord_def Let_def split: fetch_outcome.splits)

lemma sendDiscord_posts:
  "WEBHOOK_URL env \<noteq> [] \<Longrightarrow>
   snd (sendDiscord env sent m)
     = sent @ [Posted \<lparr>post_url = WEBHOOK_URL env, post_content = take 2000 m\<rparr>]"
  by (simp add: sendDiscord_def Let_def split: fetch_outcome.splits)

lemma sendDiscord_unset: "WEBHOOK_URL env = [] \<Longrightarrow> sendDiscord env sent m = (False, sent)"
  by (simp add: sendDiscord_def)

lemma sendDiscord_failed:
  "post_failed (d_fetch env sent \<lparr>post_url = WEBHOOK_URL env, post_content = take 2000 m\<rparr>)
   \<Longrightarrow> fst (sendDiscord env sent m) = False"
  by (simp add: sendDiscord_def post_failed_def Let_def split: fetch_outcome.splits)

lemma chunk_loop_lengths:
  "\<forall>c \<in> set chunks. length c \<le> MAX_MESSAGE_LENGTH \<Longrightarrow>
   \<forall>c \<in> set (chunk_loop remaining chunks). length c \<le> MAX_MESSAGE_LENGTH"
proof (induction remaining chunks rule: chunk_loop.induct)
  case (1 remaining chunks)
  show ?case
  proof (cases "0 < length remaining \<and> \<not> length remaining \<le> MAX_MESSAGE_LENGTH")
    case False
    then show ?thesis using "1.prems" by (subst chunk_loop.simps) auto
  next
    case True
    have "length (take (splitIndex_of remaining) remaining) \<le> MAX_MESSAGE_LENGTH"
      using splitIndex_of_le[of remaining] by simp
    with "1.prems"
    have "\<forall>c \<in> set (chunks @ [take (splitIndex_of remaining) remaining]). length c \<le> MAX_MESSAGE_LENGTH"
      by auto
    with True "1.IH"[of "splitIndex_of remaining"] show ?thesis
      by (subst chunk_loop.simps) (simp add: Let_def)
  qed
qed

lemma filter_dropWhile_not: "filter P (dropWhile (\<lambda>x. \<not> P x) xs) = filter P xs"
  by (induction xs) auto

lemma filter_js_trim:
  "filter (\<lambda>c. \<not> js_whitespace c) (js_trim s) = filter (\<lambda>c. \<not> js_whitespace c) s"
proof -
  have d: "\<And>xs. filter (\<lambda>c. \<not> js_whitespace c) (dropWhile js_whitespace xs)
             = filter (\<lambda>c. \<not> js_whitespace c) xs"
    using filter_dropWhile_not[of "\<lambda>c. \<not> js_whitespace c"] by simp
  show ?thesis
    by (simp add: js_trim_def d rev_filter[symmetric])
qed

lemma chunk_loop_content:
  "filter (\<lambda>c. \<not> js_whitespace c) (concat (chunk_loop remaining chunks))
     = filter (\<lambda>c. \<not> js_whitespace c) (concat chunks @ remaining)"
proof (induction remaining chunks rule: chunk_loop.induct)
  case (1 remaining chunks)
  show ?case
  proof (cases "0 < length remaining \<and> \<not> length remaining \<le> MAX_MESSAGE_LENGTH")
    case False
    then show ?thesis by (subst chunk_loop.simps) auto
  next
    case True
    let ?i = "splitIndex_of remaining"
    have "filter (\<lambda>c. \<not> js_whitespace c) (concat (chunk_loop remaining chunks))
            = filter (\<lambda>c. \<not> js_whitespace c)
                (concat (chunks @ [take ?i remaining]) @ js_trim (drop ?i remaining))"
      using True "1.IH"[of ?i] by (subst chunk_loop.simps) (simp add: Let_def)
    also have "\<dots> = filter (\<lambda>c. \<not> js_whitespace c) (concat chunks @ take ?i remaining @ drop ?i remaining)"
      by (simp add: filter_js_trim del: append_take_drop_id)
    also have "\<dots> = filter (\<lambda>c. \<not> js_whitespace c) (concat chunks @ remaining)"
      by (simp only: append_take_drop_id)
    finally show ?thesis .
  qed
qed

lemma posts_of_append: "posts_of (xs @ ys) = posts_of xs @ posts_of ys"
  by (simp add: posts_of_def)

lemma posts_of_Posted: "posts_of (Posted p # es) = p # posts_of es"
  by (simp add: posts_of_def)

lemma posts_of_Slept: "posts_of (Slept ms # es) = posts_of es"
  by (simp add: posts_of_def)

lemma posts_of_Nil: "posts_of [] = []"
  by (simp add: posts_of_def)

lemma send_chunks_posts:
  "WEBHOOK_URL env \<noteq> [] \<Longrightarrow>
   posts_of (snd (send_chunks env chunks allOk sent))
     = posts_of sent @ map (\<lambda>c. \<lparr>post_url = WEBHOOK_URL env, post_content = take 2000 c\<rparr>) chunks"
proof (induction chunks arbitrary: allOk sent)
  case Nil
  then show ?case by simp
next
  case (Cons chunk chunks)
  have s: "snd (sendDiscord env sent chunk)
     = sent @ [Posted \<lparr>post_url = WEBHOOK_URL env, post_content = take 2000 chunk\<rparr>]"
    using Cons.prems by (rule sendDiscord_posts)
  show ?case
    by (simp add: case_prod_unfold Cons.IH[OF Cons.prems] s posts_of_append posts_of_Posted
        posts_of_Slept posts_of_Nil)
qed

text \<open>
  The two webhook helpers cap what they post. \<open>sendDiscord\<close> makes at most one POST,
  whose content is the first 2000 characters of the message at most; it returns false,
  and nothing else happens, when the webhook URL is unset, and false when \<open>fetch\<close>
  throws or the response is not ok. For a message longer than 1900 characters, every
  chunk of \<open>sendDiscordChunked\<close> has at most 1900 characters, the chunks taken together
  are the message in its order up to the white space trimmed where it was cut, and with
  the webhook set each chunk is posted, in order and whole, whatever the outcome of the
  posts before it.
\<close>

theorem discord_posts_capped:
  "(snd (sendDiscord env sent m) = sent
      \<or> snd (sendDiscord env sent m)
          = sent @ [Posted \<lparr>post_url = WEBHOOK_URL env, post_content = take 2000 m\<rparr>])
   \<and> length (take 2000 m) \<le> 2000
   \<and> (WEBHOOK_URL env = [] \<longrightarrow> sendDiscord env sent m = (False, sent))
   \<and> (post_failed (d_fetch env sent \<lparr>post_url = WEBHOOK_URL env, post_content = take 2000 m\<rparr>)
        \<longrightarrow> fst (sendDiscord env sent m) = False)
   \<and> (MAX_MESSAGE_LENGTH < length m \<longrightarrow>
        list_all (\<lambda>c. length c \<le> MAX_MESSAGE_LENGTH) (chunk_loop m [])
      \<and> filter (\<lambda>c. \<not> js_whitespace c) (concat (chunk_loop m []))
          = filter (\<lambda>c. \<not> js_whitespace c) m
      \<and> (WEBHOOK_URL env \<noteq> [] \<longrightarrow>
            posts_of (snd (sendDiscordChunked env sent m))
              = posts_of sent
                @ map (\<lambda>c. \<lparr>post_url = WEBHOOK_URL env, post_content = c\<rparr>) (chunk_loop m [])))"
proof (intro conjI impI)
  show "snd (sendDiscord env sent m) = sent
      \<or> snd (sendDiscord env sent m)
          = sent @ [Posted \<lparr>post_url = WEBHOOK_URL env, post_content = take 2000 m\<rparr>]"
    by (rule sendDiscord_effects)
  show "length (take 2000 m) \<le> 2000" by simp
  show "sendDiscord env sent m = (False, sent)" if "WEBHOOK_URL env = []"
    using that by (rule sendDiscord_unset)
  show "fst (sendDiscord env sent m) = False"
    if "post_failed (d_fetch env sent \<lparr>post_url = WEBHOOK_URL env, post_content = take 2000 m\<rparr>)"
    using that by (rule sendDiscord_failed)
next
  assume long: "MAX_MESSAGE_LENGTH < length m"
  have all: "\<forall>c \<in> set (chunk_loop m []). length c \<le> MAX_MESSAGE_LENGTH"
    by (rule chunk_loop_lengths) simp
  then show "list_all (\<lambda>c. length c \<le> MAX_MESSAGE_LENGTH) (chunk_loop m [])"
    by (simp add: list_all_iff)
  show "filter (\<lambda>c. \<not> js_whitespace c) (concat (chunk_loop m []))
          = filter (\<lambda>c. \<not> js_whitespace c) m"
    using chunk_loop_content[of m "[]"] by simp
  assume url: "WEBHOOK_URL env \<noteq> []"
  have "map (\<lambda>c. \<lparr>post_url = WEBHOOK_URL env, post_content = take 2000 c\<rparr>) (chunk_loop m [])
          = map (\<lambda>c. \<lparr>post_url = WEBHOOK_URL env, post_content = c\<rparr>) (chunk_loop m [])"
    using all by (intro map_cong refl) (force simp: MAX_MESSAGE_LENGTH_def)
  then show "posts_of (snd (sendDiscordChunked env sent m))
              = posts_of sent
                @ map (\<lambda>c. \<lparr>post_url = WEBHOOK_URL env, post_content = c\<rparr>) (chunk_loop m [])"
    using long url by (simp add: sendDiscordChunked_def send_chunks_posts)
qed

lemma last_index_from_absent:
  "c \<notin> set s \<Longrightarrow> last_index_from (c # p) s i = None"
  by (induction i) (auto simp: prefix_def dest: in_set_dropD, (metis in_set_dropD list.set_intros(1))+)

lemma js_lastIndexOf_absent: "c \<notin> set s \<Longrightarrow> js_lastIndexOf s (c # p) i = None"
  by (simp add: js_lastIndexOf_def last_index_from_absent)

lemma splitIndex_of_no_space:
  "CHR 0x0A \<notin> set s \<Longrightarrow> CHR '' '' \<notin> set s \<Longrightarrow> splitIndex_of s = MAX_MESSAGE_LENGTH"
  by (simp add: splitIndex_of_def js_lastIndexOf_absent)

lemma chunk_loop_xs:
  "chunk_loop (replicate 2500 CHR ''x'') [] = [replicate 1900 CHR ''x'', replicate 600 CHR ''x'']"
proof -
  have si: "splitIndex_of (replicate 2500 CHR ''x'') = 1900"
    by (simp add: splitIndex_of_no_space MAX_MESSAGE_LENGTH_def)
  have tr: "js_trim (replicate 600 CHR ''x'') = replicate 600 CHR ''x''"
    by (simp add: js_trim_def js_whitespace_def dropWhile_replicate)
  have l2: "chunk_loop (replicate 600 CHR ''x'') [replicate 1900 CHR ''x'']
              = [replicate 1900 CHR ''x'', replicate 600 CHR ''x'']"
    by (subst chunk_loop.simps) (simp add: MAX_MESSAGE_LENGTH_def)
  have "chunk_loop (replicate 2500 CHR ''x'') []
          = chunk_loop (js_trim (drop 1900 (replicate 2500 CHR ''x''))) ([] @ [take 1900 (replicate 2500 CHR ''x'')])"
    by (subst chunk_loop.simps) (simp add: MAX_MESSAGE_LENGTH_def si Let_def)
  also have "\<dots> = chunk_loop (replicate 600 CHR ''x'') [replicate 1900 CHR ''x'']"
    by (simp add: tr)
  finally show ?thesis by (simp add: l2)
qed

theorem discord_posts_capped_witness:
  "sendDiscord (demo_discord [] (Responded True 204 (Inr []))) [] ''regime: NEUTRAL'' = (False, [])
   \<and> sendDiscord (demo_discord ''https://discord.test/hook'' (Responded True 204 (Inr []))) []
        ''regime: NEUTRAL''
      = (True, [Posted \<lparr>post_url = ''https://discord.test/hook'', post_content = ''regime: NEUTRAL''\<rparr>])
   \<and> fst (sendDiscord (demo_discord ''https://discord.test/hook'' (Responded False 429 (Inr ''slow down'')))
          [] ''regime: NEUTRAL'') = False
   \<and> list_all (\<lambda>c. length c \<le> 1900) (chunk_loop (replicate 2500 CHR ''x'') [])
   \<and> map post_content (posts_of (snd (sendDiscordChunked
          (demo_discord ''https://discord.test/hook'' (Responded True 204 (Inr []))) []
          (replicate 2500 CHR ''x''))))
      = [replicate 1900 CHR ''x'', replicate 600 CHR ''x'']"
proof -
  let ?off = "demo_discord [] (Responded True 204 (Inr []))"
  let ?on = "demo_discord ''https://discord.test/hook'' (Responded True 204 (Inr []))"
  let ?busy = "demo_discord ''https://discord.test/hook'' (Responded False 429 (Inr ''slow down''))"
  have u0: "WEBHOOK_URL ?off = []" by (simp add: demo_discord_def)
  have u1: "WEBHOOK_URL ?on \<noteq> []" by (simp add: demo_discord_def)
  have f: "post_failed (d_fetch ?busy [] \<lparr>post_url = WEBHOOK_URL ?busy,
              post_content = take 2000 ''regime: NEUTRAL''\<rparr>)"
    by (simp add: demo_discord_def post_failed_def)
  have long: "MAX_MESSAGE_LENGTH < length (replicate 2500 CHR ''x'')"
    by (simp add: MAX_MESSAGE_LENGTH_def)
  have ok: "sendDiscord ?on [] ''regime: NEUTRAL''
      = (True, [Posted \<lparr>post_url = ''https://discord.test/hook'', post_content = ''regime: NEUTRAL''\<rparr>])"
    by (simp add: sendDiscord_def demo_discord_def)
  from discord_posts_capped[of ?off "[]" "''regime: NEUTRAL''"] u0
  have a: "sendDiscord ?off [] ''regime: NEUTRAL'' = (False, [])" by blast
  from discord_posts_capped[of ?busy "[]" "''regime: NEUTRAL''"] f
  have b: "fst (sendDiscord ?busy [] ''regime: NEUTRAL'') = False" by blast
  from discord_posts_capped[of ?on "[]" "replicate 2500 CHR ''x''"] long u1
  have c: "list_all (\<lambda>c. length c \<le> MAX_MESSAGE_LENGTH) (chunk_loop (replicate 2500 CHR ''x'') [])"
    and d: "posts_of (snd (sendDiscordChunked ?on [] (replicate 2500 CHR ''x'')))
              = posts_of []
                @ map (\<lambda>c. \<lparr>post_url = WEBHOOK_URL ?on, post_content = c\<rparr>)
                    (chunk_loop (replicate 2500 CHR ''x'') [])"
    by blast+
  from d have "map post_content (posts_of (snd (sendDiscordChunked ?on [] (replicate 2500 CHR ''x''))))
      = [replicate 1900 CHR ''x'', replicate 600 CHR ''x'']"
    by (simp add: chunk_loop_xs posts_of_Nil)
  with a b c ok show ?thesis by (simp add: MAX_MESSAGE_LENGTH_def)
qed

section \<open>Strategy activation: properties\<close>

lemma getStrategy_logConversation:
  "getStrategy env (logConversation env db params) strategyId = getStrategy env db strategyId"
  by (simp add: getStrategy_def logConversation_def split: option.splits)

lemma strategies_logConversation: "strategies (logConversation env db params) = strategies db"
  by (simp add: logConversation_def split: option.splits)

lemma buildActivatePrompt_invalid:
  assumes "\<not> validations_pass env db strategyId"
  shows "strategies (snd (buildActivatePrompt env db strategyId)) = strategies db"
    and "\<exists>msg. fst (buildActivatePrompt env db strategyId) = Inr \<lparr>res_prompt = [], res_error = Some msg\<rparr>"
  using assms
  by (auto simp: buildActivatePrompt_def validations_pass_def validateStrategyId_def Let_def
      getStrategy_logConversation strategies_logConversation split: option.splits)

lemma buildActivatePrompt_valid:
  assumes "validations_pass env db strategyId"
  shows "\<exists>row. strategies db strategyId = Some row
          \<and> (case update_fails env of
                Some err \<Rightarrow>
                  fst (buildActivatePrompt env db strategyId) = Inl err
                  \<and> strategies (snd (buildActivatePrompt env db strategyId)) = strategies db
              | None \<Rightarrow>
                  (\<exists>p. fst (buildActivatePrompt env db strategyId) = Inr \<lparr>res_prompt = p, res_error = None\<rparr>)
                  \<and> strategies (snd (buildActivatePrompt env db strategyId))
                      = (strategies db)(strategyId \<mapsto> row\<lparr>status := ''paper'', updated_at := db_now env\<rparr>))"
  using assms
  by (auto simp: buildActivatePrompt_def validations_pass_def validateStrategyId_def Let_def
      getStrategy_logConversation strategies_logConversation activateStrategy_def getStrategy_def
      logConversation_def split: option.splits)

text \<open>
  Claim C10. The validations pass exactly when the id matches the pattern, the SELECT
  succeeds and finds a row, its status is neither \<open>paper\<close> nor \<open>live\<close>, and it has
  backtest results. When they do not pass, \<open>buildActivatePrompt\<close> returns an error message
  with an empty prompt and leaves the table of strategies as it was; so whenever the
  table changes they had passed. When they pass and the UPDATE succeeds, the row of the
  strategy, and no other, is changed: its status is \<open>paper\<close>.
\<close>

theorem buildActivatePrompt_guarded:
  "(validations_pass env db strategyId \<longleftrightarrow>
      STRATEGY_ID_RE_test strategyId \<and> select_fails env = None
      \<and> (\<exists>row. strategies db strategyId = Some row
            \<and> status row \<noteq> ''paper'' \<and> status row \<noteq> ''live''
            \<and> \<not> js_missing (backtest_results row)))
   \<and> (\<not> validations_pass env db strategyId \<longrightarrow>
        strategies (snd (buildActivatePrompt env db strategyId)) = strategies db
      \<and> (\<exists>msg. fst (buildActivatePrompt env db strategyId)
                  = Inr \<lparr>res_prompt = [], res_error = Some msg\<rparr>))
   \<and> (strategies (snd (buildActivatePrompt env db strategyId)) \<noteq> strategies db \<longrightarrow>
        validations_pass env db strategyId)
   \<and> (validations_pass env db strategyId \<and> update_fails env = None \<longrightarrow>
        (\<exists>row p. strategies db strategyId = Some row
           \<and> fst (buildActivatePrompt env db strategyId) = Inr \<lparr>res_prompt = p, res_error = None\<rparr>
           \<and> strategies (snd (buildActivatePrompt env db strategyId))
               = (strategies db)(strategyId \<mapsto> row\<lparr>status := ''paper'', updated_at := db_now env\<rparr>)))"
proof (intro conjI impI)
  show "validations_pass env db strategyId \<longleftrightarrow>
      STRATEGY_ID_RE_test strategyId \<and> select_fails env = None
      \<and> (\<exists>row. strategies db strategyId = Some row
            \<and> status row \<noteq> ''paper'' \<and> status row \<noteq> ''live''
            \<and> \<not> js_missing (backtest_results row))"
    by (auto simp: validations_pass_def getStrategy_def split: option.splits)
next
  assume n: "\<not> validations_pass env db strategyId"
  show "strategies (snd (buildActivatePrompt env db strategyId)) = strategies db"
    using n by (rule buildActivatePrompt_invalid(1))
  show "\<exists>msg. fst (buildActivatePrompt env db strategyId)
                  = Inr \<lparr>res_prompt = [], res_error = Some msg\<rparr>"
    using n by (rule buildActivatePrompt_invalid(2))
next
  assume "strategies (snd (buildActivatePrompt env db strategyId)) \<noteq> strategies db"
  then show "validations_pass env db strategyId"
    using buildActivatePrompt_invalid(1) by blast
next
  assume "validations_pass env db strategyId \<and> update_fails env = None"
  then show "\<exists>row p. strategies db strategyId = Some row
           \<and> fst (buildActivatePrompt env db strategyId) = Inr \<lparr>res_prompt = p, res_error = None\<rparr>
           \<and> strategies (snd (buildActivatePrompt env db strategyId))
               = (strategies db)(strategyId \<mapsto> row\<lparr>status := ''paper'', updated_at := db_now env\<rparr>)"
    using buildActivatePrompt_valid[of env db strategyId] by auto
qed

theorem buildActivatePrompt_guarded_witness:
  \<open>strategies (snd (buildActivatePrompt demo_activate_env demo_database ''grid-sol''))
     = strategies demo_database
   \<and> fst (buildActivatePrompt demo_activate_env demo_database ''grid-sol'')
       = Inr \<lparr>res_prompt = [],
              res_error = Some ''Strategy `grid-sol` is already active (status: paper).''\<rparr>
   \<and> strategies (snd (buildActivatePrompt demo_activate_env demo_database ''mom-eth'')) ''mom-eth''
       = Some \<lparr>status = ''paper'', backtest_results = Some ''{"win_rate":0.58}'',
               updated_at = 1700000000\<rparr>
   \<and> strategies (snd (buildActivatePrompt demo_activate_env demo_database ''no such id!''))
       = strategies demo_database\<close>
proof -
  have v1: "\<not> validations_pass demo_activate_env demo_database ''grid-sol''"
    by (simp add: validations_pass_def getStrategy_def demo_activate_env_def demo_database_def)
  have v2: "validations_pass demo_activate_env demo_database ''mom-eth''
              \<and> update_fails demo_activate_env = None"
    by (simp add: validations_pass_def getStrategy_def demo_activate_env_def demo_database_def
        STRATEGY_ID_RE_test_def strategy_id_char_def js_missing_def)
  have v3: "\<not> validations_pass demo_activate_env demo_database ''no such id!''"
    by (simp add: validations_pass_def STRATEGY_ID_RE_test_def strategy_id_char_def)
  have r2: \<open>strategies demo_database ''mom-eth''
     = Some \<lparr>status = ''draft'', backtest_results = Some ''{"win_rate":0.58}'', updated_at = 5\<rparr>\<close>
    by (simp add: demo_database_def)
  have e1: "fst (buildActivatePrompt demo_activate_env demo_database ''grid-sol'')
       = Inr \<lparr>res_prompt = [],
              res_error = Some ''Strategy `grid-sol` is already active (status: paper).''\<rparr>"
    by (simp add: buildActivatePrompt_def validateStrategyId_def STRATEGY_ID_RE_test_def
        strategy_id_char_def getStrategy_def logConversation_def demo_activate_env_def
        demo_database_def Let_def)
  from buildActivatePrompt_guarded[of demo_activate_env demo_database "''grid-sol''"] v1
  have a: "strategies (snd (buildActivatePrompt demo_activate_env demo_database ''grid-sol''))
     = strategies demo_database" by blast
  from buildActivatePrompt_guarded[of demo_activate_env demo_database "''no such id!''"] v3
  have c: "strategies (snd (buildActivatePrompt demo_activate_env demo_database ''no such id!''))
     = strategies demo_database" by blast
  from buildActivatePrompt_guarded[of demo_activate_env demo_database "''mom-eth''"] v2
  obtain row where "strategies demo_database ''mom-eth'' = Some row"
    and "strategies (snd (buildActivatePrompt demo_activate_env demo_database ''mom-eth''))
               = (strategies demo_database)(''mom-eth'' \<mapsto>
                    row\<lparr>status := ''paper'', updated_at := db_now demo_activate_env\<rparr>)"
    by blast
  with r2 have b: \<open>strategies (snd (buildActivatePrompt demo_activate_env demo_database ''mom-eth'')) ''mom-eth''
       = Some \<lparr>status = ''paper'', backtest_results = Some ''{"win_rate":0.58}'',
               updated_at = 1700000000\<rparr>\<close>
    by (simp add: demo_activate_env_def)
  from a e1 b c show ?thesis by simp
qed

section \<open>Heartbeat scheduler: properties\<close>

subsection \<open>Runs in which no command fails\<close>














subsection \<open>What a run touches\<close>











subsection \<open>Word splitting\<close>








subsection \<open>A due heartbeat, and a whole tick\<close>









subsection \<open>Runs that end the script\<close>







subsection \<open>Skipping and firing\<close>

lemmas heartbeat_eval =
  heartbeat_tick_def TICK_INTERVAL_def command_substitution_def shell_words_def
  ifs_char_def glob_char_def
  heartbeat_agent_def read_INTERVAL_def read_MODE_def get_last_heartbeat_def set_last_heartbeat_def
  demo_heartbeat_env_def jq_string_safe_def jq_alternative_def jq_agent_field_def
  test_lt_def bash_integer_def Let_def and_then_def log_sh_def heartbeat_fire_def read_PROMPT_def
  post_webhook_def HEARTBEAT_SCRIPT_def
  HEARTBEAT_FILE_def MESSAGE_ID_def show_int_def digit_char_def




subsection \<open>What the script posts to the webhook\<close>

text \<open>
  Claim C9. Every post to the notification sink is to be capped in length. The
  heartbeat script posts through \<open>post_webhook\<close>, which sends the content it is given
  whole. The Claude-mode branch of the loop cuts a response to its first 1800
  characters before it posts; the script-mode branch hands over the whole output of
  \<open>heartbeat.sh\<close>. In the world where the script of \<open>monitor\<close> prints 5000 characters and
  the response to the heartbeat of \<open>scout\<close> has 5000 characters, one tick posts all 5000
  characters of the script output, and 1823 characters for the response.
\<close>

theorem heartbeat_script_output_uncapped:
  "heartbeat_tick verbose_env
      [(''monitor'', \<lparr>hb_heartbeat_interval = JqPrints ''30'', hb_heartbeat_mode = JqPrints ''script''\<rparr>),
       (''scout'', \<lparr>hb_heartbeat_interval = JqPrints ''45'', hb_heartbeat_mode = JqNull\<rparr>)]
      \<lparr>hs_clock = 1700000940, hs_last = [''monitor'' \<mapsto> 1700000969], hs_actions = []\<rparr>
   = Running \<lparr>hs_clock = 1700001007,
       hs_last = [''monitor'' \<mapsto> 1700001002, ''scout'' \<mapsto> 1700001007],
       hs_actions =
         [Logged ''Heartbeat due for @monitor (elapsed: 31s, interval: 30s, mode: script)'',
          Logged ''  Running script: /srv/tinyclaw/workspace/monitor/heartbeat.sh'',
          RanScript ''/srv/tinyclaw/workspace/monitor/heartbeat.sh'',
          Logged (''  Script output: '' @ replicate 200 CHR ''x''),
          PostedWebhook (replicate 5000 CHR ''x''),
          Logged ''Heartbeat due for @scout (elapsed: 1700001000s, interval: 45s, mode: claude)'',
          Logged ''  Using default heartbeat prompt'',
          QueuedMessage ''heartbeat_scout_1700001002_4242'' ''scout''
            ''Quick status check: Any pending tasks? Keep response brief.'' 1700001000,
          Logged (''  '' @ [CHR 0xE2, CHR 0x9C, CHR 0x93]
                    @ '' Queued heartbeat for @scout: heartbeat_scout_1700001002_4242''),
          Logged (''  '' @ [CHR 0xE2, CHR 0x86, CHR 0x90] @ '' @scout: '' @ replicate 120 CHR ''y'' @ ''...''),
          PostedWebhook (''**@scout heartbeat:**'' @ [CHR 0x5C, CHR ''n''] @ replicate 1800 CHR ''y''),
          RemovedFile ''/srv/tinyclaw/.tinyclaw/queue/outgoing/heartbeat_scout_1700001002_4242.json'']\<rparr>
   \<and> length (replicate 5000 CHR ''x'') = 5000
   \<and> length (''**@scout heartbeat:**'' @ [CHR 0x5C, CHR ''n''] @ replicate 1800 CHR ''y'') = 1823"
  by (simp add: heartbeat_eval verbose_env_def)

section \<open>Team chain orchestrator: properties\<close>

lemma chain_steps_kinds:
  assumes "list_all configured ms" and "invocations_succeed invoke current ms"
  shows "map kind_of (fst (chain_steps configured invoke i current ms))
           = concat (replicate (length ms - 1) [KStarted, KDone, KHandoff])
             @ (if ms = [] then [] else [KStarted, KDone])
       \<and> done_agents (fst (chain_steps configured invoke i current ms)) = ms
       \<and> handoff_pairs (fst (chain_steps configured invoke i current ms)) = zip ms (tl ms)
       \<and> (\<exists>output. snd (chain_steps configured invoke i current ms) = Completed output)"
  using assms
proof (induction ms arbitrary: i current)
  case Nil
  then show ?case by (simp add: done_agents_def handoff_pairs_def)
next
  case (Cons m rest)
  from Cons.prems obtain res where out: "invoke m current = Inr res"
    and rest_ok: "invocations_succeed invoke res rest"
    by (auto split: sum.splits)
  have conf: "configured m" "list_all configured rest" using Cons.prems(1) by simp_all
  define tail_run where "tail_run = chain_steps configured invoke (Suc i) res rest"
  define handoff where
    "handoff = (case rest of [] \<Rightarrow> [] | next_member # later \<Rightarrow> [Handoff m next_member i])"
  have step: "chain_steps configured invoke i current (m # rest)
                = ([StepStarted m i, StepDone m res] @ handoff @ fst tail_run, snd tail_run)"
    using conf(1) out by (simp add: tail_run_def handoff_def case_prod_unfold Let_def)
  have IH: "map kind_of (fst tail_run)
              = concat (replicate (length rest - 1) [KStarted, KDone, KHandoff])
                @ (if rest = [] then [] else [KStarted, KDone])"
    "done_agents (fst tail_run) = rest"
    "handoff_pairs (fst tail_run) = zip rest (tl rest)"
    "\<exists>outp. snd tail_run = Completed outp"
    using Cons.IH[OF conf(2) rest_ok, of "Suc i"] by (simp_all add: tail_run_def)
  have da: "\<And>xs ys. done_agents (xs @ ys) = done_agents xs @ done_agents ys"
    by (simp add: done_agents_def)
  have hp: "\<And>xs ys. handoff_pairs (xs @ ys) = handoff_pairs xs @ handoff_pairs ys"
    by (simp add: handoff_pairs_def)
  show ?case
  proof (cases rest)
    case Nil
    then have "handoff = []" by (simp add: handoff_def)
    then show ?thesis
      unfolding step using IH Nil by (simp add: da hp) (simp add: done_agents_def handoff_pairs_def)
  next
    case (Cons n later)
    then have h: "handoff = [Handoff m n i]" by (simp add: handoff_def)
    have r: "concat (replicate (length (m # rest) - 1) [KStarted, KDone, KHandoff])
               = [KStarted, KDone, KHandoff]
                 @ concat (replicate (length rest - 1) [KStarted, KDone, KHandoff])"
      using Cons by simp
    show ?thesis
      unfolding step h using IH Cons
      by (simp add: da hp r del: replicate.simps) (simp add: done_agents_def handoff_pairs_def)
  qed
qed

lemma count_concat_replicate:
  "length (filter P (concat (replicate n xs))) = n * length (filter P xs)"
  by (induction n) simp_all

lemma count_kind_map:
  "count_kind k events = length (filter (\<lambda>x. x = k) (map kind_of events))"
  by (simp add: count_kind_def filter_map comp_def)

text \<open>
  Claim C3, amended. For every team of \<open>N \<ge> 1\<close> members that are all in the agent
  configuration, a chain execution in which every invocation returns an output emits,
  in this order, for each member but the last a step-started, a step-done and a handoff
  event, for the last member a step-started and a step-done event, and then one
  chain-ended event listing all the members: \<open>N\<close> step-done events, \<open>N - 1\<close> handoff
  events (none for a single member) and one chain-ended event, which is the last event.
  The step-done events name the members in order and the handoffs go from each member
  to the next.
\<close>

theorem chain_events_in_order:
  assumes "members team \<noteq> []"
    and "list_all configured (members team)"
    and "invocations_succeed invoke payload (members team)"
  shows "map kind_of (fst (run_chain configured invoke team payload))
           = concat (replicate (length (members team) - 1) [KStarted, KDone, KHandoff])
             @ [KStarted, KDone, KEnded]
       \<and> count_kind KDone (fst (run_chain configured invoke team payload)) = length (members team)
       \<and> count_kind KHandoff (fst (run_chain configured invoke team payload))
           = length (members team) - 1
       \<and> count_kind KEnded (fst (run_chain configured invoke team payload)) = 1
       \<and> last (fst (run_chain configured invoke team payload)) = ChainEnded (members team)
       \<and> done_agents (fst (run_chain configured invoke team payload)) = members team
       \<and> handoff_pairs (fst (run_chain configured invoke team payload))
           = zip (members team) (tl (members team))
       \<and> (\<exists>outp. snd (run_chain configured invoke team payload) = Completed outp)"
proof -
  let ?steps = "chain_steps configured invoke 1 payload (members team)"
  note ck = chain_steps_kinds[OF assms(2,3), of 1]
  have k: "map kind_of (fst ?steps)
           = concat (replicate (length (members team) - 1) [KStarted, KDone, KHandoff])
             @ [KStarted, KDone]"
    and d: "done_agents (fst ?steps) = members team"
    and h: "handoff_pairs (fst ?steps) = zip (members team) (tl (members team))"
    and c: "\<exists>outp. snd ?steps = Completed outp"
    using ck assms(1) by auto
  from c obtain outp where outp: "snd ?steps = Completed outp" by blast
  have run: "run_chain configured invoke team payload
               = (fst ?steps @ [ChainEnded (members team)], Completed outp)"
    using outp by (simp add: run_chain_def case_prod_unfold)
  have kinds: "map kind_of (fst (run_chain configured invoke team payload))
           = concat (replicate (length (members team) - 1) [KStarted, KDone, KHandoff])
             @ [KStarted, KDone, KEnded]"
    using k by (simp add: run)
  have n: "length (members team) - 1 + 1 = length (members team)"
    using assms(1) by (cases "members team") simp_all
  show ?thesis
  proof (intro conjI)
    show "map kind_of (fst (run_chain configured invoke team payload))
           = concat (replicate (length (members team) - 1) [KStarted, KDone, KHandoff])
             @ [KStarted, KDone, KEnded]"
      by (rule kinds)
    show "count_kind KDone (fst (run_chain configured invoke team payload)) = length (members team)"
      using n by (simp add: count_kind_map kinds count_concat_replicate)
    show "count_kind KHandoff (fst (run_chain configured invoke team payload))
           = length (members team) - 1"
      by (simp add: count_kind_map kinds count_concat_replicate)
    show "count_kind KEnded (fst (run_chain configured invoke team payload)) = 1"
      by (simp add: count_kind_map kinds count_concat_replicate)
    show "last (fst (run_chain configured invoke team payload)) = ChainEnded (members team)"
      by (simp add: run)
    show "done_agents (fst (run_chain configured invoke team payload)) = members team"
      using d by (simp add: run done_agents_def)
    show "handoff_pairs (fst (run_chain configured invoke team payload))
           = zip (members team) (tl (members team))"
      using h by (simp add: run handoff_pairs_def)
    show "\<exists>outp. snd (run_chain configured invoke team payload) = Completed outp"
      by (simp add: run)
  qed
qed

theorem chain_events_in_order_witness:
  "run_chain (\<lambda>agent. True) scenario_invoke (scenario_team [''a'', ''b'']) ''X''
     = ([StepStarted ''a'' 1, StepDone ''a'' ''Y'', Handoff ''a'' ''b'' 1,
         StepStarted ''b'' 2, StepDone ''b'' ''Z'', ChainEnded [''a'', ''b'']],
        Completed ''Z'')
   \<and> count_kind KDone (fst (run_chain (\<lambda>agent. True) scenario_invoke (scenario_team [''a'', ''b'']) ''X'')) = 2
   \<and> count_kind KHandoff (fst (run_chain (\<lambda>agent. True) scenario_invoke (scenario_team [''a'', ''b'']) ''X'')) = 1
   \<and> count_kind KHandoff (fst (run_chain (\<lambda>agent. True) scenario_invoke (scenario_team [''a'']) ''X'')) = 0
   \<and> count_kind KDone (fst (run_chain (\<lambda>agent. True) scenario_invoke (scenario_team [''a'']) ''X'')) = 1"
proof -
  have h2: "members (scenario_team [''a'', ''b'']) \<noteq> []"
    "list_all (\<lambda>agent. True) (members (scenario_team [''a'', ''b'']))"
    "invocations_succeed scenario_invoke ''X'' (members (scenario_team [''a'', ''b'']))"
    by (simp_all add: scenario_team_def scenario_invoke_def)
  have h1: "members (scenario_team [''a'']) \<noteq> []"
    "list_all (\<lambda>agent. True) (members (scenario_team [''a'']))"
    "invocations_succeed scenario_invoke ''X'' (members (scenario_team [''a'']))"
    by (simp_all add: scenario_team_def scenario_invoke_def)
  have run: "run_chain (\<lambda>agent. True) scenario_invoke (scenario_team [''a'', ''b'']) ''X''
     = ([StepStarted ''a'' 1, StepDone ''a'' ''Y'', Handoff ''a'' ''b'' 1,
         StepStarted ''b'' 2, StepDone ''b'' ''Z'', ChainEnded [''a'', ''b'']],
        Completed ''Z'')"
    by (simp add: run_chain_def scenario_team_def scenario_invoke_def)
  show ?thesis
    using chain_events_in_order[OF h2] chain_events_in_order[OF h1] run
    by (simp add: scenario_team_def)
qed

text \<open>
  As the claim is worded it holds of every team. A team with a member that the agent
  configuration does not hold, and a chain in which an invocation fails, end in a fatal
  chain error before all the steps are done.
\<close>

theorem chain_events_in_order_counterexample:
  "length (members (scenario_team [''a'', ''ghost''])) = 2
   \<and> count_kind KDone
        (fst (run_chain (\<lambda>agent. agent = ''a'') scenario_invoke (scenario_team [''a'', ''ghost'']) ''X''))
       = 1
   \<and> count_kind KEnded
        (fst (run_chain (\<lambda>agent. agent = ''a'') scenario_invoke (scenario_team [''a'', ''ghost'']) ''X''))
       = 0
   \<and> snd (run_chain (\<lambda>agent. agent = ''a'') scenario_invoke (scenario_team [''a'', ''ghost'']) ''X'')
       = UnknownMember ''ghost''
   \<and> length (members (scenario_team [''b'', ''a''])) = 2
   \<and> count_kind KDone
        (fst (run_chain (\<lambda>agent. True) scenario_invoke (scenario_team [''b'', ''a'']) ''X'')) = 0
   \<and> snd (run_chain (\<lambda>agent. True) scenario_invoke (scenario_team [''b'', ''a'']) ''X'')
       = InvocationFailed ''b'' ''agent b exited with code 1''"
  by (simp add: run_chain_def scenario_team_def scenario_invoke_def count_kind_def)

section \<open>Rate limiter: properties\<close>

lemma evict_expired_dropWhile:
  "evict_expired now ts = dropWhile (\<lambda>t. t \<le> now - RATE_LIMIT_WINDOW_MS) ts"
  by (induction ts) auto

lemma evict_expired_suffix: "suffix (evict_expired now ts) ts"
  by (simp add: evict_expired_dropWhile suffix_dropWhile)

lemma evict_expired_keeps_recent:
  "filter (\<lambda>t. now - RATE_LIMIT_WINDOW_MS < t) (evict_expired now ts)
     = filter (\<lambda>t. now - RATE_LIMIT_WINDOW_MS < t) ts"
  by (induction ts) auto

lemma evict_expired_all_recent:
  "\<forall>t \<in> set ts. now - RATE_LIMIT_WINDOW_MS < t \<Longrightarrow> evict_expired now ts = ts"
  by (cases ts) auto

lemma evict_expired_length: "length (evict_expired now ts) \<le> length ts"
  by (induction ts) auto

lemma checkRateLimit_full:
  assumes "RATE_LIMIT_MAX \<le> length (filter (\<lambda>t. now - RATE_LIMIT_WINDOW_MS < t) ts)"
  shows "checkRateLimit now ts = (False, evict_expired now ts)"
proof -
  have "length (filter (\<lambda>t. now - RATE_LIMIT_WINDOW_MS < t) (evict_expired now ts))
          \<le> length (evict_expired now ts)"
    by (rule length_filter_le)
  with assms have "RATE_LIMIT_MAX \<le> length (evict_expired now ts)"
    by (simp add: evict_expired_keeps_recent)
  then show ?thesis by (simp add: checkRateLimit_def)
qed

lemma checkRateLimit_full_unchanged:
  assumes "length ts = RATE_LIMIT_MAX" and "\<forall>t \<in> set ts. now - RATE_LIMIT_WINDOW_MS < t"
  shows "checkRateLimit now ts = (False, ts)"
  using assms by (simp add: checkRateLimit_def evict_expired_all_recent)

lemma checkRateLimit_oldest_expired:
  assumes "t0 \<le> now - RATE_LIMIT_WINDOW_MS" and "length (t0 # rest) \<le> RATE_LIMIT_MAX"
  shows "checkRateLimit now (t0 # rest) = (True, evict_expired now rest @ [now])"
proof -
  have "length (evict_expired now rest) \<le> length rest"
    by (rule evict_expired_length)
  with assms(2) have "length (evict_expired now rest) < RATE_LIMIT_MAX"
    by simp
  with assms(1) show ?thesis by (simp add: checkRateLimit_def)
qed

lemma checkRateLimit_admit_appends:
  assumes "fst (checkRateLimit now ts)"
  shows "snd (checkRateLimit now ts) = evict_expired now ts @ [now]"
  using assms by (simp add: checkRateLimit_def Let_def split: if_splits)

lemma checkRateLimit_bounded:
  assumes "length ts \<le> RATE_LIMIT_MAX"
  shows "length (snd (checkRateLimit now ts)) \<le> RATE_LIMIT_MAX"
proof -
  have "length (evict_expired now ts) \<le> length ts"
    by (rule evict_expired_length)
  with assms show ?thesis
    by (simp add: checkRateLimit_def Let_def)
qed

lemma checkRateLimit_six_calls:
  assumes "t1 \<le> t2" "t2 \<le> t3" "t3 \<le> t4" "t4 \<le> t5" "t5 \<le> t6"
    and "t6 - t1 < RATE_LIMIT_WINDOW_MS"
  shows "checkRateLimit_calls [t1, t2, t3, t4, t5, t6] []
           = ([True, True, True, True, True, False], [t1, t2, t3, t4, t5])"
  using assms by (simp add: checkRateLimit_def RATE_LIMIT_MAX_def)

text \<open>
  Claim C2. With the window of 60000 ms and the maximum of 5: (1) when at least 5 recorded
  admissions are younger than the window, the call returns false and the array afterwards
  is the evicted array, a suffix of the old one (nothing is appended); when the array
  holds exactly 5 such entries it is left as it was; (2) when the oldest entry of an
  array of at most 5 entries is at or beyond the window, it is shifted out and the call
  returns true; (3) every call that returns true leaves the evicted array with exactly
  \<open>now\<close> appended; (4) six calls from the empty array at non-decreasing times less than
  a window apart return true five times and then false; (5) an array of at most 5
  entries, as every array reached from the empty one is, has at most 5 entries after
  the call.
\<close>

theorem checkRateLimit_sliding_window:
  "(RATE_LIMIT_MAX \<le> length (filter (\<lambda>t. now - RATE_LIMIT_WINDOW_MS < t) ts) \<longrightarrow>
      checkRateLimit now ts = (False, evict_expired now ts) \<and> suffix (evict_expired now ts) ts)
   \<and> (length ts = RATE_LIMIT_MAX \<and> (\<forall>t \<in> set ts. now - RATE_LIMIT_WINDOW_MS < t) \<longrightarrow>
      checkRateLimit now ts = (False, ts))
   \<and> (t0 \<le> now - RATE_LIMIT_WINDOW_MS \<and> length (t0 # rest) \<le> RATE_LIMIT_MAX \<longrightarrow>
      checkRateLimit now (t0 # rest) = (True, evict_expired now rest @ [now]))
   \<and> (fst (checkRateLimit now ts) \<longrightarrow>
      snd (checkRateLimit now ts) = evict_expired now ts @ [now]
      \<and> length (snd (checkRateLimit now ts)) = Suc (length (evict_expired now ts)))
   \<and> (t1 \<le> t2 \<and> t2 \<le> t3 \<and> t3 \<le> t4 \<and> t4 \<le> t5 \<and> t5 \<le> t6
        \<and> t6 - t1 < RATE_LIMIT_WINDOW_MS \<longrightarrow>
      checkRateLimit_calls [t1, t2, t3, t4, t5, t6] []
        = ([True, True, True, True, True, False], [t1, t2, t3, t4, t5]))
   \<and> (length ts \<le> RATE_LIMIT_MAX \<longrightarrow> length (snd (checkRateLimit now ts)) \<le> RATE_LIMIT_MAX)"
proof (intro conjI impI)
  assume "RATE_LIMIT_MAX \<le> length (filter (\<lambda>t. now - RATE_LIMIT_WINDOW_MS < t) ts)"
  then show "checkRateLimit now ts = (False, evict_expired now ts)"
    by (rule checkRateLimit_full)
next
  show "suffix (evict_expired now ts) ts"
    by (rule evict_expired_suffix)
next
  assume "length ts = RATE_LIMIT_MAX \<and> (\<forall>t \<in> set ts. now - RATE_LIMIT_WINDOW_MS < t)"
  then show "checkRateLimit now ts = (False, ts)"
    by (simp add: checkRateLimit_full_unchanged)
next
  assume "t0 \<le> now - RATE_LIMIT_WINDOW_MS \<and> length (t0 # rest) \<le> RATE_LIMIT_MAX"
  then show "checkRateLimit now (t0 # rest) = (True, evict_expired now rest @ [now])"
    using checkRateLimit_oldest_expired by blast
next
  assume a: "fst (checkRateLimit now ts)"
  then show "snd (checkRateLimit now ts) = evict_expired now ts @ [now]"
    by (rule checkRateLimit_admit_appends)
  then show "length (snd (checkRateLimit now ts)) = Suc (length (evict_expired now ts))"
    by simp
next
  assume "t1 \<le> t2 \<and> t2 \<le> t3 \<and> t3 \<le> t4 \<and> t4 \<le> t5 \<and> t5 \<le> t6
        \<and> t6 - t1 < RATE_LIMIT_WINDOW_MS"
  then show "checkRateLimit_calls [t1, t2, t3, t4, t5, t6] []
        = ([True, True, True, True, True, False], [t1, t2, t3, t4, t5])"
    using checkRateLimit_six_calls by blast
next
  assume "length ts \<le> RATE_LIMIT_MAX"
  then show "length (snd (checkRateLimit now ts)) \<le> RATE_LIMIT_MAX"
    by (rule checkRateLimit_bounded)
qed

theorem checkRateLimit_sliding_window_witness:
  "checkRateLimit 100000 [50000, 60000, 70000, 80000, 90000] = (False, [50000, 60000, 70000, 80000, 90000])
   \<and> checkRateLimit 110000 [50000, 60000, 70000, 80000, 90000] = (True, [60000, 70000, 80000, 90000, 110000])
   \<and> checkRateLimit_calls [1000, 2000, 3000, 4000, 5000, 6000] []
        = ([True, True, True, True, True, False], [1000, 2000, 3000, 4000, 5000])"
  using checkRateLimit_sliding_window
    [of 100000 "[50000, 60000, 70000, 80000, 90000]" 50000 "[60000, 70000, 80000, 90000]"
        1000 2000 3000 4000 5000 6000]
    checkRateLimit_sliding_window
    [of 110000 "[50000, 60000, 70000, 80000, 90000]" 50000 "[60000, 70000, 80000, 90000]"
        1000 2000 3000 4000 5000 6000]
  by (simp add: RATE_LIMIT_MAX_def RATE_LIMIT_WINDOW_MS_def)

end
